theory Spec2Isabelle
  imports Complex_Main "HOL-Library.Sublist" "HOL-Library.Log_Nat"
begin

section \<open>Python exceptions, strings and option lists\<close>

text \<open>
  The exceptions the modelled functions raise, as values. The result of a Python
  function is \<open>pyerror + 'a\<close>: \<open>Inl\<close> is a raised exception, \<open>Inr\<close> a normal return.
  The three \<open>CPLE\<close> constructors are the typed exceptions that \<open>cple.check()\<close> of the
  native error-stack capture (\<open>rasterio._err.CPLErrors\<close>) raises for a captured report;
  each carries the report's message, which is also its \<open>str\<close>.
\<close>

datatype pyerror =
    ValueError string
  | IndexError string
  | KeyError string
  | TypeError string
  | DriverRegistrationError string
  | CRSError string
  | CPLE_NotSupportedError string
  | CPLE_AppDefinedError string
  | CPLE_BaseError string
  | OverflowError string

text \<open>Python's \<open>str.upper()\<close> on ASCII text.\<close>

definition upper_char :: "char \<Rightarrow> char" where
  "upper_char c =
     (case map_of (zip ''abcdefghijklmnopqrstuvwxyz'' ''ABCDEFGHIJKLMNOPQRSTUVWXYZ'') c of
        Some u \<Rightarrow> u
      | None \<Rightarrow> c)"

definition upper :: "string \<Rightarrow> string" where
  "upper s = map upper_char s"

text \<open>
  A native string list (\<open>char **\<close>) of \<open>NAME=VALUE\<close> entries, as a list of pairs; the
  \<open>NULL\<close> list is \<open>[]\<close>. \<open>CSLSetNameValue\<close> belongs to the native library: it returns
  the list with the entry of that name replaced (names compare without regard to case),
  or with a new entry appended when there is none. Its argument is not changed: the
  caller has the new list only through the returned value.
\<close>

type_synonym string_list = "(string \<times> string) list"

fun CSLSetNameValue :: "string_list \<Rightarrow> string \<Rightarrow> string \<Rightarrow> string_list" where
  "CSLSetNameValue [] name val = [(name, val)]"
| "CSLSetNameValue ((n, v) # rest) name val =
     (if upper n = upper name then (n, val) # rest
      else (n, v) # CSLSetNameValue rest name val)"

text \<open>A C \<open>int\<close> assigned from a C \<open>long\<close>: the low 32 bits, read as two's complement.\<close>

definition c_int :: "int \<Rightarrow> int" where
  "c_int x = signed_take_bit 31 x"

section \<open>The buffer-band bridge (transfer operations of the shim)\<close>

text \<open>
  The C strings the shim holds (\<open>char *\<close> values): \<open>NULL\<close>, the buffer of a Python
  \<open>bytes\<close> object that the function keeps alive (\<open>val_b\<close>), or a pointer into the
  storage of the native library's option table, named by the allocation it points into.
\<close>

datatype cstring = NULL | PyBytes string | Internal nat

text \<open>
  The process-wide configuration options of the native library: the entries of its table
  (option name, allocation, value) and the number of allocations made so far. The
  library owns the entries. (Options set for one thread alone, and values taken from the
  environment, are not modelled.) \<open>CPLGetConfigOption\<close> makes no copy: it returns a pointer
  into the entry of the option, or the default. \<open>CPLSetConfigOption\<close> releases the entry
  of the option, if there is one; then, for a value other than \<open>NULL\<close>, it reads the
  string at the pointer and stores a copy of it in a new allocation (\<open>NULL\<close> unsets the
  option). \<open>CPLFree\<close> hands a pointer back to the allocator.

  Reading through a pointer into a released entry, and freeing a pointer that the
  allocator did not hand out, are undefined in C. In the model each is a memory fault,
  and the function stops at the first one.
\<close>

datatype memory_fault = UseAfterFree | InvalidFree

record config =
  entries :: "(string \<times> nat \<times> string) list"
  allocations :: nat

text \<open>The string an option is set to, \<open>None\<close> when it is not set.\<close>

definition value_of :: "config \<Rightarrow> string \<Rightarrow> string option" where
  "value_of cfg key = map_option snd (map_of (entries cfg) key)"

definition CPLGetConfigOption :: "config \<Rightarrow> string \<Rightarrow> cstring \<Rightarrow> cstring" where
  "CPLGetConfigOption cfg key dflt =
     (case map_of (entries cfg) key of Some (a, v) \<Rightarrow> Internal a | None \<Rightarrow> dflt)"

text \<open>The string read at a pointer, given the entries that are live; \<open>None\<close> when there is none to read.\<close>

definition c_str :: "(string \<times> nat \<times> string) list \<Rightarrow> cstring \<Rightarrow> string option" where
  "c_str live p =
     (case p of NULL \<Rightarrow> None | PyBytes v \<Rightarrow> Some v | Internal a \<Rightarrow> map_of (map snd live) a)"

definition CPLSetConfigOption :: "config \<Rightarrow> string \<Rightarrow> cstring \<Rightarrow> memory_fault + config" where
  "CPLSetConfigOption cfg key p =
     (let kept = filter (\<lambda>e. fst e \<noteq> key) (entries cfg)
      in if p = NULL then Inr (cfg\<lparr>entries := kept\<rparr>)
         else case c_str kept p of
                None \<Rightarrow> Inl UseAfterFree
              | Some v \<Rightarrow> Inr \<lparr>entries = kept @ [(key, allocations cfg, v)],
                               allocations = Suc (allocations cfg)\<rparr>)"

definition CPLFree :: "cstring \<Rightarrow> memory_fault option" where
  "CPLFree p = (case p of NULL \<Rightarrow> None | PyBytes v \<Rightarrow> Some InvalidFree | Internal a \<Rightarrow> Some InvalidFree)"

text \<open>
  The window after the casts \<open><int>x0\<close>, \<open><int>y0\<close>, \<open><int>width\<close>, \<open><int>height\<close>, and
  what the functions read from \<open>data\<close> before anything else: its shape and strides
  (\<open>layout\<close>), the type code \<open>dtypes.dtype_rev[data.dtype.name]\<close>, the address
  \<open>PyArray_DATA(data)\<close> and, for a band-major buffer, the band stride and the address of
  each slice \<open>data[i]\<close> (\<open>None\<close> is a \<open>NULL\<close> address).
\<close>

record window =
  xoff :: int
  yoff :: int
  xsize :: int
  ysize :: int

record layout =
  bufxsize :: int
  bufysize :: int
  bufpixelspace :: int
  buflinespace :: int

record 'b ndarray =
  PyArray_DATA :: 'b
  layout :: layout
  buftype :: int

record 'b ndarray3 = "'b ndarray" +
  bufbandspace :: int
  slices :: "'b option list"

text \<open>
  One call of the native transfer: \<open>GDALRasterIO\<close> on a band or mask handle, or
  \<open>GDALDatasetRasterIO\<close> on a dataset handle with its band map.
\<close>

datatype ('h, 'b) transfer =
    RasterIO 'h int window 'b layout int
  | DatasetRasterIO 'h int window 'b layout int "int list" int

text \<open>
  The native library and the enumeration the shim uses: \<open>Resampling\<close> gives the member
  name of \<open>rasterio.enums.Resampling(value)\<close>, \<open>None\<close> when the value names no member
  (the constructor then raises \<open>ValueError\<close>); \<open>GDALRasterIO\<close> gives the status a
  transfer reports under the option values in force when it runs.
\<close>

record ('h, 'b) gdal =
  Resampling :: "int \<Rightarrow> string option"
  GDALRasterIO :: "(string \<Rightarrow> string option) \<Rightarrow> ('h, 'b) transfer \<Rightarrow> int"
  GDALGetRasterBand :: "'h \<Rightarrow> int \<Rightarrow> 'h option"
  GDALGetMaskBand :: "'h \<Rightarrow> 'h option"

text \<open>
  The state the transfers act on: the options, the native transfers made so far, and
  the exceptions written out as unraisable so far.

  The three functions are \<open>cdef int\<close> functions declared without an exception value
  (lines 14, 58 and 110, and lines 4 to 11 of \<open>_shim.pxd\<close>; \<open>delete_nodata_value\<close>, next to
  them, is declared \<open>except 3\<close>). An exception raised in such a function cannot reach the
  caller: the compiled function leaves its body at the \<open>raise\<close>, writes the exception out
  as unraisable, and returns the default value of its return type, 0. So a call ends in
  one of two ways: it returns a status, or it stops in a memory fault.
\<close>

record ('h, 'b) io_state =
  config :: config
  transfers :: "('h, 'b) transfer list"
  unraisable :: "pyerror list"

definition write_unraisable ::
  "pyerror \<Rightarrow> ('h, 'b) io_state \<Rightarrow> (memory_fault + int) \<times> ('h, 'b) io_state" where
  "write_unraisable err s = (Inr 0, s\<lparr>unraisable := unraisable s @ [err]\<rparr>)"

text \<open>
  The last three lines of each function: \<open>CPLSetConfigOption\<close> with \<open>stored_val\<close>,
  \<open>CPLFree(stored_val)\<close>, \<open>return retval\<close>.
\<close>

definition restore_and_return ::
  "cstring \<Rightarrow> int \<Rightarrow> ('h, 'b) io_state \<Rightarrow> (memory_fault + int) \<times> ('h, 'b) io_state" where
  "restore_and_return stored_val retval s =
     (case CPLSetConfigOption (config s) ''GDAL_RASTERIO_RESAMPLING'' stored_val of
        Inl fault \<Rightarrow> (Inl fault, s)
      | Inr cfg \<Rightarrow>
         (case CPLFree stored_val of
            Some fault \<Rightarrow> (Inl fault, s\<lparr>config := cfg\<rparr>)
          | None \<Rightarrow> (Inr retval, s\<lparr>config := cfg\<rparr>)))"

definition io_band ::
  "('h, 'b) gdal \<Rightarrow> 'h \<Rightarrow> int \<Rightarrow> window \<Rightarrow> 'b ndarray \<Rightarrow> int \<Rightarrow> ('h, 'b) io_state
     \<Rightarrow> (memory_fault + int) \<times> ('h, 'b) io_state" where
  "io_band E band mode win data resampling s =
     (let stored_val = CPLGetConfigOption (config s) ''GDAL_RASTERIO_RESAMPLING'' NULL
      in case Resampling E resampling of
           None \<Rightarrow> write_unraisable (ValueError ''not a valid Resampling'') s
         | Some name \<Rightarrow>
            (case CPLSetConfigOption (config s) ''GDAL_RASTERIO_RESAMPLING'' (PyBytes (upper name)) of
               Inl fault \<Rightarrow> (Inl fault, s)
             | Inr cfg \<Rightarrow>
                 let s1 = s\<lparr>config := cfg\<rparr>;
                     call = RasterIO band mode win (PyArray_DATA data) (layout data) (buftype data);
                     retval = GDALRasterIO E (value_of (config s1)) call;
                     s2 = s1\<lparr>transfers := transfers s1 @ [call]\<rparr>
                 in restore_and_return stored_val retval s2))"

definition io_multi_band ::
  "('h, 'b) gdal \<Rightarrow> 'h \<Rightarrow> int \<Rightarrow> window \<Rightarrow> 'b ndarray3 \<Rightarrow> int list \<Rightarrow> int \<Rightarrow> ('h, 'b) io_state
     \<Rightarrow> (memory_fault + int) \<times> ('h, 'b) io_state" where
  "io_multi_band E hds mode win data indexes resampling s =
     (let stored_val = CPLGetConfigOption (config s) ''GDAL_RASTERIO_RESAMPLING'' NULL
      in case Resampling E resampling of
           None \<Rightarrow> write_unraisable (ValueError ''not a valid Resampling'') s
         | Some name \<Rightarrow>
            (case CPLSetConfigOption (config s) ''GDAL_RASTERIO_RESAMPLING'' (PyBytes (upper name)) of
               Inl fault \<Rightarrow> (Inl fault, s)
             | Inr cfg \<Rightarrow>
                 let s1 = s\<lparr>config := cfg\<rparr>;
                     bandmap = map c_int indexes;
                     call = DatasetRasterIO hds mode win (PyArray_DATA data) (layout data) (buftype data)
                              bandmap (bufbandspace data);
                     retval = GDALRasterIO E (value_of (config s1)) call;
                     s2 = s1\<lparr>transfers := transfers s1 @ [call]\<rparr>
                 in restore_and_return stored_val retval s2))"

text \<open>
  One pass of the loop body of \<open>io_multi_mask\<close> at position \<open>i\<close> for the index \<open>x\<close>,
  up to the native call: the band, its mask band and the address of \<open>data[i]\<close> are
  resolved in this order, each failure raising at once; then the transfer is made on the
  mask handle, always with the type code 1, and reports its status.
\<close>

definition mask_channel ::
  "('h, 'b) gdal \<Rightarrow> 'h \<Rightarrow> int \<Rightarrow> window \<Rightarrow> 'b ndarray3 \<Rightarrow> (string \<Rightarrow> string option) \<Rightarrow> nat \<Rightarrow> int
     \<Rightarrow> pyerror + (('h, 'b) transfer \<times> int)" where
  "mask_channel E hds mode win data opts i x =
     (let j = c_int x
      in case GDALGetRasterBand E hds j of
           None \<Rightarrow> Inl (ValueError ''Null band'')
         | Some band \<Rightarrow>
            (case GDALGetMaskBand E band of
               None \<Rightarrow> Inl (ValueError ''Null mask band'')
             | Some hmask \<Rightarrow>
                 if length (slices data) \<le> i
                 then Inl (IndexError ''index out of bounds'')
                 else
                  (case slices data ! i of
                     None \<Rightarrow> Inl (ValueError ''NULL data'')
                   | Some buf \<Rightarrow>
                       let call = RasterIO hmask mode win buf (layout data) 1
                       in Inr (call, GDALRasterIO E opts call))))"

text \<open>
  The loop (\<open>for i in range(count)\<close>), from position \<open>i\<close> with the indexes still to
  visit and the current \<open>retval\<close>. A \<open>raise\<close> leaves the loop with the exception
  (\<open>Inl\<close>); a non-zero status leaves the loop (\<open>break\<close>) with that status.
\<close>

fun mask_loop ::
  "('h, 'b) gdal \<Rightarrow> 'h \<Rightarrow> int \<Rightarrow> window \<Rightarrow> 'b ndarray3 \<Rightarrow> nat \<Rightarrow> int list \<Rightarrow> int
     \<Rightarrow> ('h, 'b) io_state \<Rightarrow> (pyerror + int) \<times> ('h, 'b) io_state" where
  "mask_loop E hds mode win data i [] retval s = (Inr retval, s)"
| "mask_loop E hds mode win data i (x # rest) retval s =
     (case mask_channel E hds mode win data (value_of (config s)) i x of
        Inl err \<Rightarrow> (Inl err, s)
      | Inr (call, retval') \<Rightarrow>
          let s' = s\<lparr>transfers := transfers s @ [call]\<rparr>
          in if retval' \<noteq> 0 then (Inr retval', s')
             else mask_loop E hds mode win data (Suc i) rest retval' s')"

text \<open>
  \<open>io_multi_mask\<close>: an exception out of the loop is written out as unraisable and the
  function returns 0 from there, past the lines that restore the option; otherwise the
  function ends as the other two do.
\<close>

definition io_multi_mask ::
  "('h, 'b) gdal \<Rightarrow> 'h \<Rightarrow> int \<Rightarrow> window \<Rightarrow> 'b ndarray3 \<Rightarrow> int list \<Rightarrow> int \<Rightarrow> ('h, 'b) io_state
     \<Rightarrow> (memory_fault + int) \<times> ('h, 'b) io_state" where
  "io_multi_mask E hds mode win data indexes resampling s =
     (let stored_val = CPLGetConfigOption (config s) ''GDAL_RASTERIO_RESAMPLING'' NULL
      in case Resampling E resampling of
           None \<Rightarrow> write_unraisable (ValueError ''not a valid Resampling'') s
         | Some name \<Rightarrow>
            (case CPLSetConfigOption (config s) ''GDAL_RASTERIO_RESAMPLING'' (PyBytes (upper name)) of
               Inl fault \<Rightarrow> (Inl fault, s)
             | Inr cfg \<Rightarrow>
                (case mask_loop E hds mode win data 0 indexes 3 (s\<lparr>config := cfg\<rparr>) of
                   (Inl err, s2) \<Rightarrow> write_unraisable err s2
                 | (Inr retval, s2) \<Rightarrow> restore_and_return stored_val retval s2)))"

text \<open>
  The failure kinds of the specification's taxonomy, as the caller of a transfer
  operation can tell them from what it gets: the status 0 is success; a non-zero status
  is an \<open>IOFailure\<close>; a memory fault is none of the named kinds. No outcome of these
  functions is a \<open>NullChannelFailure\<close> or an \<open>InvalidInput\<close>, since no exception leaves
  them.
\<close>

datatype failure_kind = IOFailure | NullChannelFailure | InvalidInput | OtherFailure

definition spec_failure_kind :: "memory_fault + int \<Rightarrow> failure_kind option" where
  "spec_failure_kind r =
     (case r of
        Inr status \<Rightarrow> (if status = 0 then None else Some IOFailure)
      | Inl fault \<Rightarrow> Some OtherFailure)"

subsection \<open>A concrete engine for the examples\<close>

text \<open>
  Modelled from the spec: the enumeration \<open>rasterio.enums.Resampling\<close> is not among the
  sources. Its members are the seven that the docstring of \<open>_reproject\<close> lists, numbered
  from 0 in that order; 0, the default of the transfer operations, is \<open>nearest\<close>.
\<close>

definition Resampling_enum :: "int \<Rightarrow> string option" where
  "Resampling_enum v =
     map_of [(0, ''nearest''), (1, ''bilinear''), (2, ''cubic''), (3, ''cubic_spline''),
             (4, ''lanczos''), (5, ''average''), (6, ''mode'')] v"

text \<open>
  A dataset with four bands (handles 11 to 14 for the indexes 1 to 4). Band 13 has no
  mask band; the others have the mask handles 111, 112 and 114. Every transfer reports
  success, except those on the band 14 and on its mask 114, which report the status 3.
\<close>

definition example_gdal :: "(nat, nat) gdal" where
  "example_gdal =
     \<lparr>Resampling = Resampling_enum,
      GDALRasterIO = (\<lambda>opts call.
         case call of RasterIO h mode win buf lay ty \<Rightarrow> (if h = 14 \<or> h = 114 then 3 else 0)
                    | DatasetRasterIO h mode win buf lay ty bands space \<Rightarrow> 0),
      GDALGetRasterBand = (\<lambda>hds j. if 1 \<le> j \<and> j \<le> 4 then Some (nat (10 + j)) else None),
      GDALGetMaskBand = (\<lambda>band. if band = 13 then None else Some (band + 100))\<rparr>"

definition example_window :: window where
  "example_window = \<lparr>xoff = 0, yoff = 0, xsize = 4, ysize = 4\<rparr>"

definition example_layout :: layout where
  "example_layout = \<lparr>bufxsize = 4, bufysize = 4, bufpixelspace = 1, buflinespace = 4\<rparr>"

definition example_data :: "nat ndarray3" where
  "example_data =
     \<lparr>PyArray_DATA = 1000, layout = example_layout, buftype = 1, bufbandspace = 16,
      slices = [Some 1000, Some 1016, Some 1032, Some 1048]\<rparr>"

text \<open>Two states with nothing transferred yet: no option set, and the option set to \<open>BILINEAR\<close>.\<close>

definition example_state :: "(nat, nat) io_state" where
  "example_state = \<lparr>config = \<lparr>entries = [], allocations = 0\<rparr>, transfers = [], unraisable = []\<rparr>"

definition example_state_set :: "(nat, nat) io_state" where
  "example_state_set =
     \<lparr>config = \<lparr>entries = [(''GDAL_RASTERIO_RESAMPLING'', 0, ''BILINEAR'')], allocations = 1\<rparr>,
      transfers = [], unraisable = []\<rparr>"

section \<open>Coordinate rounding and the coordinate transform bridge\<close>

text \<open>
  Coordinates as \<open>GeomBuilder\<close> gives them and \<open>recursive_round\<close> takes them: a number
  (an \<open>int\<close> or a \<open>float\<close>, the values of \<open>'a\<close>), or a sequence of coordinates.
\<close>

datatype 'a coords = Num 'a | Seq "'a coords list"

text \<open>
  \<open>recursive_round\<close>, with the rounding of a number as the parameter \<open>rnd\<close>. Python's
  built-in \<open>round\<close> on ints and floats is modelled below (\<open>py_round\<close>).
\<close>

fun recursive_round :: "('a \<Rightarrow> int \<Rightarrow> 'a) \<Rightarrow> 'a coords \<Rightarrow> int \<Rightarrow> 'a coords" where
  "recursive_round rnd (Num val) precision = Num (rnd val precision)"
| "recursive_round rnd (Seq val) precision =
     Seq (map (\<lambda>part. recursive_round rnd part precision) val)"

text \<open>The nesting structure of coordinates: every number replaced by \<open>()\<close>.\<close>

definition shape :: "'a coords \<Rightarrow> unit coords" where
  "shape val = map_coords (\<lambda>v. ()) val"

text \<open>The number at a position: the path gives the index to take at each nesting level.\<close>

fun component :: "nat list \<Rightarrow> 'a coords \<Rightarrow> 'a option" where
  "component [] val = (case val of Num v \<Rightarrow> Some v | Seq parts \<Rightarrow> None)"
| "component (i # path) val =
     (case val of
        Num v \<Rightarrow> None
      | Seq parts \<Rightarrow> if i < length parts then component path (parts ! i) else None)"

text \<open>
  The mapping \<open>GeomBuilder().build\<close> returns: its \<open>type\<close>, and its \<open>coordinates\<close> entry
  when it has one (a geometry collection has none).
\<close>

record 'a geometry =
  geom_type :: string
  coordinates :: "'a coords option"

text \<open>
  The native side of \<open>_transform_geom\<close>. \<open>ogr_osr_from_crs\<close> resolves a CRS or raises;
  \<open>OCTNewCoordinateTransformation\<close> is the block of lines 55 to 61, giving the
  transformation or the exception that leaves the block; \<open>transformWithOptions\<close> is the
  block of lines 70 to 79 (build the native geometry, transform it under the options,
  check the error stack, build the mapping), giving the transformed mapping or the
  exception raised.
\<close>

record ('crs, 'srs, 'ct, 'a) ogr =
  ogr_osr_from_crs :: "'crs \<Rightarrow> pyerror + 'srs"
  OCTNewCoordinateTransformation :: "'srs \<Rightarrow> 'srs \<Rightarrow> pyerror + 'ct"
  transformWithOptions :: "'ct \<Rightarrow> string_list \<Rightarrow> 'a geometry \<Rightarrow> pyerror + 'a geometry"

text \<open>
  Lines 52 to 79: the transformed geometry before any rounding.
  \<open>antimeridian_offset\<close> is given by its \<open>str\<close>.
\<close>

definition transform_native ::
  "('crs, 'srs, 'ct, 'a) ogr \<Rightarrow> 'crs \<Rightarrow> 'crs \<Rightarrow> 'a geometry \<Rightarrow> bool \<Rightarrow> string
     \<Rightarrow> pyerror + 'a geometry" where
  "transform_native E src_crs dst_crs geom antimeridian_cutting antimeridian_offset =
     (case ogr_osr_from_crs E src_crs of
        Inl err \<Rightarrow> Inl err
      | Inr src \<Rightarrow>
         (case ogr_osr_from_crs E dst_crs of
            Inl err \<Rightarrow> Inl err
          | Inr dst \<Rightarrow>
             (case OCTNewCoordinateTransformation E src dst of
                Inl err \<Rightarrow> Inl err
              | Inr transform \<Rightarrow>
                  let options = CSLSetNameValue [] ''DATELINEOFFSET'' antimeridian_offset;
                      options = (if antimeridian_cutting
                                 then CSLSetNameValue options ''WRAPDATELINE'' ''YES''
                                 else options)
                  in transformWithOptions E transform options geom)))"

definition transform_geom ::
  "('crs, 'srs, 'ct, 'a) ogr \<Rightarrow> ('a \<Rightarrow> int \<Rightarrow> 'a) \<Rightarrow> 'crs \<Rightarrow> 'crs \<Rightarrow> 'a geometry \<Rightarrow> bool
     \<Rightarrow> string \<Rightarrow> int \<Rightarrow> pyerror + 'a geometry" where
  "transform_geom E rnd src_crs dst_crs geom antimeridian_cutting antimeridian_offset precision =
     (case transform_native E src_crs dst_crs geom antimeridian_cutting antimeridian_offset of
        Inl err \<Rightarrow> Inl err
      | Inr result \<Rightarrow>
          if precision \<ge> 0
          then (case coordinates result of
                  None \<Rightarrow> Inl (KeyError ''coordinates'')
                | Some c \<Rightarrow> Inr (result\<lparr>coordinates := Some (recursive_round rnd c precision)\<rparr>))
          else Inr result)"

text \<open>
  Exact decimal rounding on rationals, halves to the even neighbour: what Python's
  \<open>round(x, ndigits)\<close> computes when no floating-point representation error intervenes.
  It is used in the examples only.
\<close>

definition round_half_even :: "rat \<Rightarrow> int" where
  "round_half_even x =
     (let f = \<lfloor>x\<rfloor>; d = x - of_int f
      in if d < 1 / 2 then f else if 1 / 2 < d then f + 1 else if even f then f else f + 1)"

definition round_decimal :: "rat \<Rightarrow> int \<Rightarrow> rat" where
  "round_decimal x ndigits =
     (if ndigits \<ge> 0 then of_int (round_half_even (x * 10 ^ nat ndigits)) / 10 ^ nat ndigits
      else of_int (round_half_even (x / 10 ^ nat (- ndigits))) * 10 ^ nat (- ndigits))"

subsection \<open>Python's numbers and the built-in \<open>round\<close>\<close>

text \<open>
  The numbers at the leaves of the coordinates are Python ints and floats. A float is an
  IEEE 754 binary64 value: a finite one, given by its exact value, an infinity, or a
  NaN. The sign of a zero is not modelled (Python's \<open>==\<close> does not tell the two zeros
  apart).
\<close>

datatype pyfloat = Finite rat | PosInf | NegInf | NaN

datatype number = PyInt int | PyFloat pyfloat

text \<open>
  The binary exponent of a rational other than 0: \<open>ilog2 x\<close> is the \<open>e\<close> with
  \<open>2\<^sup>e \<le> |x| < 2\<^sup>e\<^sup>+\<^sup>1\<close>, found from the bit lengths of numerator and denominator.
  \<open>quantum x\<close> is the spacing of the binary64 values around \<open>x\<close>: 52 binary places
  below the exponent, and \<open>2\<^sup>-\<^sup>1\<^sup>0\<^sup>7\<^sup>4\<close> throughout the subnormal range.
\<close>

definition ilog2 :: "rat \<Rightarrow> int" where
  "ilog2 x =
     (let (a, b) = quotient_of \<bar>x\<bar>;
          l = bitlen a - bitlen b
      in if 2 powi l \<le> \<bar>x\<bar> then l else l - 1)"

definition quantum :: "rat \<Rightarrow> rat" where
  "quantum x = 2 powi (max (ilog2 x) (- 1022) - 52)"

text \<open>
  The two correctly rounded conversions that CPython's \<open>double_round\<close> is made of.
  \<open>dtoa3 x ndigits\<close> is the decimal that \<open>_Py_dg_dtoa\<close> writes in mode 3: the exact value
  of \<open>x\<close> rounded to \<open>ndigits\<close> places after the point, halves to the even digit.
  \<open>strtod\<close> is \<open>_Py_dg_strtod\<close>: the binary64 value nearest to a decimal, halves to the
  even significand; a result of magnitude \<open>2\<^sup>1\<^sup>0\<^sup>2\<^sup>4\<close> stands for the overflow it reports.
  \<open>is_double\<close> says that a rational is a finite binary64 value.
\<close>

definition dtoa3 :: "rat \<Rightarrow> int \<Rightarrow> rat" where
  "dtoa3 x ndigits = of_int (round_half_even (x * 10 powi ndigits)) / 10 powi ndigits"

definition strtod :: "rat \<Rightarrow> rat" where
  "strtod x = of_int (round_half_even (x / quantum x)) * quantum x"

definition is_double :: "rat \<Rightarrow> bool" where
  "is_double x \<longleftrightarrow> strtod x = x \<and> \<bar>x\<bar> < 2 ^ 1024"

text \<open>
  \<open>round(x, ndigits)\<close> as CPython 3 computes it. For a float (\<open>float.__round__\<close>): NaNs
  and infinities round to themselves; beyond 323 digits a finite value rounds to
  itself, below -308 digits to zero; otherwise \<open>double_round\<close> writes the value as a
  decimal of \<open>ndigits\<close> places and reads the decimal back, raising \<open>OverflowError\<close> when
  the value read back is too large for a float. For an int (\<open>int.__round__\<close>): the int
  itself when \<open>ndigits\<close> is not negative, else the nearest multiple of the power of ten,
  halves to the even multiple.
\<close>

definition double_round :: "rat \<Rightarrow> int \<Rightarrow> pyerror + rat" where
  "double_round x ndigits =
     (let rounded = strtod (dtoa3 x ndigits)
      in if 2 ^ 1024 \<le> \<bar>rounded\<bar>
         then Inl (OverflowError ''rounded value too large to represent'')
         else Inr rounded)"

definition float_round :: "pyfloat \<Rightarrow> int \<Rightarrow> pyerror + pyfloat" where
  "float_round x ndigits =
     (case x of
        Finite r \<Rightarrow>
          if 323 < ndigits then Inr x
          else if ndigits < - 308 then Inr (Finite 0)
          else map_sum id Finite (double_round r ndigits)
      | PosInf \<Rightarrow> Inr x
      | NegInf \<Rightarrow> Inr x
      | NaN \<Rightarrow> Inr x)"

definition int_round :: "int \<Rightarrow> int \<Rightarrow> int" where
  "int_round i ndigits =
     (if 0 \<le> ndigits then i
      else round_half_even (of_int i / 10 ^ nat (- ndigits)) * 10 ^ nat (- ndigits))"

definition py_round :: "number \<Rightarrow> int \<Rightarrow> pyerror + number" where
  "py_round x ndigits =
     (case x of
        PyInt i \<Rightarrow> Inr (PyInt (int_round i ndigits))
      | PyFloat f \<Rightarrow> map_sum id PyFloat (float_round f ndigits))"

text \<open>
  \<open>recursive_round\<close> on Python's numbers. A leaf holds the outcome of \<open>round\<close>, a number
  or the exception raised; a leaf that is already an exception stays one. The call
  returns the rounded coordinates when no \<open>round\<close> raised, and otherwise raises what the
  first of them, in the order of the lists, raised.
\<close>

definition round_outcome :: "pyerror + number \<Rightarrow> int \<Rightarrow> pyerror + number" where
  "round_outcome r precision = (case r of Inl err \<Rightarrow> Inl err | Inr x \<Rightarrow> py_round x precision)"

fun first_raised :: "(pyerror + 'a) list \<Rightarrow> pyerror + 'a list" where
  "first_raised [] = Inr []"
| "first_raised (Inl err # rest) = Inl err"
| "first_raised (Inr v # rest) = map_sum id (\<lambda>vs. v # vs) (first_raised rest)"

fun collect :: "(pyerror + 'a) coords \<Rightarrow> pyerror + 'a coords" where
  "collect (Num r) = map_sum id Num r"
| "collect (Seq parts) = map_sum id Seq (first_raised (map collect parts))"

definition recursive_round_py :: "number coords \<Rightarrow> int \<Rightarrow> pyerror + number coords" where
  "recursive_round_py val precision =
     collect (recursive_round round_outcome (map_coords Inr val) precision)"

text \<open>
  Python's \<open>==\<close> on numbers and on nested lists of numbers. Numbers compare by value,
  an int with a float exactly; a NaN is equal to nothing, itself included. Lists are
  equal when they have the same length and equal items. (The shortcut that \<open>==\<close> on lists
  takes for items that are the same object plays no part here: \<open>round\<close> returns a new
  float object for a NaN.)
\<close>

definition number_eq :: "number \<Rightarrow> number \<Rightarrow> bool" where
  "number_eq a b =
     (case (a, b) of
        (PyInt i, PyInt j) \<Rightarrow> i = j
      | (PyInt i, PyFloat (Finite s)) \<Rightarrow> of_int i = s
      | (PyFloat (Finite r), PyInt j) \<Rightarrow> r = of_int j
      | (PyFloat (Finite r), PyFloat (Finite s)) \<Rightarrow> r = s
      | (PyFloat PosInf, PyFloat PosInf) \<Rightarrow> True
      | (PyFloat NegInf, PyFloat NegInf) \<Rightarrow> True
      | _ \<Rightarrow> False)"

fun py_eq :: "number coords \<Rightarrow> number coords \<Rightarrow> bool" where
  "py_eq (Num a) (Num b) = number_eq a b"
| "py_eq (Seq xs) (Seq ys) = list_all2 py_eq xs ys"
| "py_eq (Num a) (Seq ys) = False"
| "py_eq (Seq xs) (Num b) = False"

text \<open>A number is well formed when it is an int, or a float whose finite value is a binary64 value.\<close>

definition is_number :: "number \<Rightarrow> bool" where
  "is_number x = (case x of PyFloat (Finite r) \<Rightarrow> is_double r | _ \<Rightarrow> True)"

subsection \<open>A concrete engine for the examples\<close>

text \<open>An engine that resolves every CRS and transforms between equal CRSs by the identity.\<close>

definition example_ogr :: "(string, string, string \<times> string, rat) ogr" where
  "example_ogr =
     \<lparr>ogr_osr_from_crs = (\<lambda>crs. if crs = [] then Inl (CRSError ''empty CRS'') else Inr crs),
      OCTNewCoordinateTransformation = (\<lambda>src dst. Inr (src, dst)),
      transformWithOptions = (\<lambda>ct options geom.
         if fst ct = snd ct then Inr geom
         else Inl (CPLE_NotSupportedError ''no transformation in the example engine''))\<rparr>"


section \<open>The default transform estimator\<close>

text \<open>
  \<open>Affine.from_gdal(c, a, b, f, d, e)\<close> of the \<open>affine\<close> package is \<open>Affine(a, b, c, d, e, f)\<close>;
  a geotransform is its six numbers in the order \<open>c, a, b, f, d, e\<close>.
\<close>

datatype 'r affine = Affine 'r 'r 'r 'r 'r 'r

type_synonym 'r geotransform = "'r \<times> 'r \<times> 'r \<times> 'r \<times> 'r \<times> 'r"

definition from_gdal :: "'r geotransform \<Rightarrow> 'r affine" where
  "from_gdal gt = (case gt of (c, a, b, f, d, e) \<Rightarrow> Affine a b c d e f)"

text \<open>
  What \<open>_calculate_default_transform\<close> calls. \<open>from_bounds\<close> is
  \<open>from_bounds(left, bottom, right, top, width, height).to_gdal()\<close>; \<open>est_osr_from_crs\<close>
  gives the WKT of the destination CRS or raises; \<open>InMemoryRaster\<close> is the entry of the
  \<open>with\<close> block, giving the temporary dataset or the exception raised. The two native
  calls give what they return or write, together with the exception that the
  \<open>cple.check()\<close> after the call raises, if any: \<open>GDALCreateGenImgProjTransformer\<close> the
  transformer (\<open>None\<close> is \<open>NULL\<close>), \<open>GDALSuggestedWarpOutput2\<close> the geotransform, pixel
  count and line count it has written into its output arguments.
\<close>

record ('crs, 'gcp, 'tr, 'ds, 't, 'r) estimator =
  from_bounds :: "'r \<Rightarrow> 'r \<Rightarrow> 'r \<Rightarrow> 'r \<Rightarrow> int \<Rightarrow> int \<Rightarrow> 'tr"
  est_osr_from_crs :: "'crs \<Rightarrow> pyerror + string"
  InMemoryRaster :: "int \<Rightarrow> int \<Rightarrow> 'tr option \<Rightarrow> 'gcp list \<Rightarrow> 'crs \<Rightarrow> pyerror + 'ds"
  GDALCreateGenImgProjTransformer :: "'ds \<Rightarrow> string \<Rightarrow> 't option \<times> pyerror option"
  GDALSuggestedWarpOutput2 ::
    "'ds \<Rightarrow> 't option \<Rightarrow> ('r geotransform \<times> int \<times> int) \<times> pyerror option"

text \<open>Lines 551 to 558: all four bounds, none of them, or an error.\<close>

definition bounds_transform ::
  "('crs, 'gcp, 'tr, 'ds, 't, 'r) estimator \<Rightarrow> int \<Rightarrow> int
     \<Rightarrow> 'r option \<Rightarrow> 'r option \<Rightarrow> 'r option \<Rightarrow> 'r option \<Rightarrow> pyerror + 'tr option" where
  "bounds_transform E width height left bottom right top' =
     (case (left, bottom, right, top') of
        (Some l, Some b, Some r, Some t) \<Rightarrow> Inr (Some (from_bounds E l b r t width height))
      | (None, None, None, None) \<Rightarrow> Inr None
      | _ \<Rightarrow> Inl (ValueError ''Some, but not all, bounding box parameters were provided.''))"

text \<open>
  Lines 567 to 575, the body of the \<open>try\<close>: the exception raised in it, if any, and the
  values of \<open>geotransform\<close>, \<open>npixels\<close> and \<open>nlines\<close> when it is left. They start as
  zeros; the suggestion step is reached only if the first check raises nothing.
\<close>

definition suggest ::
  "('crs, 'gcp, 'tr, 'ds, 't, 'r::zero) estimator \<Rightarrow> 'ds \<Rightarrow> string
     \<Rightarrow> pyerror option \<times> 'r geotransform \<times> int \<times> int" where
  "suggest E temp wkt =
     (case GDALCreateGenImgProjTransformer E temp wkt of
        (hTransformArg, Some err) \<Rightarrow> (Some err, (0, 0, 0, 0, 0, 0), 0, 0)
      | (hTransformArg, None) \<Rightarrow>
         (case GDALSuggestedWarpOutput2 E temp hTransformArg of
            (written, raised) \<Rightarrow> (raised, written)))"

text \<open>
  \<open>_calculate_default_transform\<close>, with the debug log as a list of messages. The
  handlers of lines 577 to 587 turn a not-supported error into \<open>CRSError\<close>, pass over an
  application-defined error whose text contains \<open>Reprojection failed\<close> after logging it,
  and let every other exception go on.
\<close>

definition calculate_default_transform ::
  "('crs, 'gcp, 'tr, 'ds, 't, 'r::zero) estimator \<Rightarrow> 'crs \<Rightarrow> 'crs \<Rightarrow> int \<Rightarrow> int
     \<Rightarrow> 'r option \<Rightarrow> 'r option \<Rightarrow> 'r option \<Rightarrow> 'r option \<Rightarrow> 'gcp list \<Rightarrow> string list
     \<Rightarrow> (pyerror + ('r affine \<times> int \<times> int)) \<times> string list" where
  "calculate_default_transform E src_crs dst_crs width height left bottom right top' gcps debug_log =
     (case bounds_transform E width height left bottom right top' of
        Inl err \<Rightarrow> (Inl err, debug_log)
      | Inr transform \<Rightarrow>
         (case est_osr_from_crs E dst_crs of
            Inl err \<Rightarrow> (Inl err, debug_log)
          | Inr wkt \<Rightarrow>
             (case InMemoryRaster E width height transform gcps src_crs of
                Inl err \<Rightarrow> (Inl err, debug_log)
              | Inr temp \<Rightarrow>
                 (case suggest E temp wkt of
                    (raised, geotransform, npixels, nlines) \<Rightarrow>
                     (case raised of
                        None \<Rightarrow>
                          (Inr (from_gdal geotransform, npixels, nlines),
                           debug_log @ [''Created transformer and warp output.''])
                      | Some (CPLE_NotSupportedError errmsg) \<Rightarrow> (Inl (CRSError errmsg), debug_log)
                      | Some (CPLE_AppDefinedError errmsg) \<Rightarrow>
                          if sublist ''Reprojection failed'' errmsg
                          then (Inr (from_gdal geotransform, npixels, nlines),
                                debug_log @ [''Encountered points outside of valid dst crs region''])
                          else (Inl (CPLE_AppDefinedError errmsg), debug_log)
                      | Some err \<Rightarrow> (Inl err, debug_log))))))"

text \<open>
  An engine for the examples: the transformer is created, and the suggestion step
  writes an extent and reports the application-defined error with the given text.
\<close>

definition example_estimator ::
  "string \<Rightarrow> (string, unit, rat list, nat, nat, rat) estimator" where
  "example_estimator errmsg =
     \<lparr>from_bounds = (\<lambda>l b r t w h. [l, (r - l) / of_int w, 0, t, 0, (b - t) / of_int h]),
      est_osr_from_crs = (\<lambda>crs. if crs = [] then Inl (CRSError ''empty CRS'') else Inr crs),
      InMemoryRaster = (\<lambda>w h tr gcps crs. Inr 1),
      GDALCreateGenImgProjTransformer = (\<lambda>ds wkt. (Some 5, None)),
      GDALSuggestedWarpOutput2 = (\<lambda>ds h.
         (((- 180, 1 / 2, 0, 90, 0, - 1 / 2), 720, 360), Some (CPLE_AppDefinedError errmsg)))\<rparr>"

section \<open>The warp orchestrator\<close>

text \<open>
  The two shapes a raster argument of \<open>_reproject\<close> can have, and anything else. An
  array has its shape, its element type name and, when it is a masked array, its
  \<open>fill_value\<close>. A band is the tuple \<open>(ds, bidx, dtype, shape)\<close>, whose \<open>bidx\<close> is one
  index or a list of them and whose dataset has a handle and a \<open>nodata\<close> attribute.
\<close>

datatype bidx = Index int | Indexes "int list"

record ('ds, 'v) dataset_reader =
  handle :: 'ds
  nodata :: "'v option"

datatype ('ds, 'v) raster =
    NDArray "nat list" string "'v option"
  | Band "('ds, 'v) dataset_reader" bidx string "nat \<times> nat"
  | Unsupported

fun is_ndarray :: "('ds, 'v) raster \<Rightarrow> bool" where
  "is_ndarray (NDArray shp dt fill_value) = True"
| "is_ndarray (Band ds b dt shp) = False"
| "is_ndarray Unsupported = False"

text \<open>\<open>source.dtype\<close> and \<open>destination.dtype\<close>, read once the argument is resolved.\<close>

fun dtype_of :: "('ds, 'v) raster \<Rightarrow> string" where
  "dtype_of (NDArray shp dt fill_value) = dt"
| "dtype_of (Band ds b dt shp) = dt"
| "dtype_of Unsupported = []"

text \<open>Python's \<open>str\<close> of an integer.\<close>

fun str_nat :: "nat \<Rightarrow> string" where
  "str_nat n = (if n < 10 then [''0123456789'' ! n]
                else str_nat (n div 10) @ [''0123456789'' ! (n mod 10)])"

definition str_int :: "int \<Rightarrow> string" where
  "str_int n = (if n < 0 then CHR ''-'' # str_nat (nat (- n)) else str_nat (nat n))"

text \<open>
  The arguments of \<open>_reproject\<close>. The extra keyword arguments are a list of keys with
  the \<open>str\<close> of their values, in the order \<open>kwargs.items()\<close> gives them. The ground
  control points are left out: setting them raises nothing.
\<close>

record ('ds, 'crs, 'gt, 'v) reproject_args =
  source :: "('ds, 'v) raster"
  destination :: "('ds, 'v) raster"
  src_transform :: "'gt option"
  src_crs :: 'crs
  src_nodata :: "'v option"
  dst_transform :: "'gt option"
  dst_crs :: 'crs
  dst_nodata :: "'v option"
  resampling :: int
  init_dest_nodata :: bool
  num_threads :: int
  kwargs :: string_list

text \<open>
  The transformer chain, the warp options structure as it stands when the warper is
  initialised, and the native calls the model records, in the order they are made.
\<close>

datatype 'ds transformer =
    GenImgProjTransformer 'ds 'ds string_list
  | ApproxTransformer "'ds transformer" rat bool

record ('ds, 'v) warp_options =
  eResampleAlg :: int
  papszWarpOptions :: string_list
  padfSrcNoDataReal :: "'v list option"
  padfSrcNoDataImag :: "'v list option"
  padfDstNoDataReal :: "'v list"
  padfDstNoDataImag :: "'v list"
  pTransformerArg :: "'ds transformer"
  hSrcDS :: 'ds
  hDstDS :: 'ds
  nBandCount :: nat
  panSrcBands :: "int list"
  panDstBands :: "int list"

datatype ('ds, 'v) event =
    IoAuto 'ds bool int
  | CreateGenImgProjTransformer2 'ds 'ds string_list
  | CreateApproxTransformer "'ds transformer"
  | WarpInitialize "('ds, 'v) warp_options"
  | ChunkAndWarpImage nat nat nat nat
  | ChunkAndWarpMulti nat nat nat nat
  | Close 'ds
  | DestroyApproxTransformer
  | DestroyWarpOptions
  | FreeImgProjOptions

text \<open>
  What \<open>_reproject\<close> calls and does not define. \<open>in_dtype_range\<close> and \<open>io_auto\<close> are
  helpers of \<open>rasterio._io\<close>; \<open>io_auto\<close> gives the status it returns for the array of a
  side, the dataset and the direction (\<open>True\<close> writes the array into the dataset). The
  others are native calls: an \<open>option\<close> result is the exception that the enclosing
  error-capture block raises, if any; \<open>GDALCreate\<close> is told the call site, as the unique
  dataset names tell the two temporary datasets apart; \<open>GDALSetGeoTransform\<close> and
  \<open>GDALSetProjection\<close> say whether the call returned \<open>GDALError.none\<close>;
  \<open>GDALCreateWarpOptions\<close> also gives the default option list of the new structure.
\<close>

datatype side = SourceSide | DestinationSide

record ('ds, 'crs, 'gt, 'v) warp_engine =
  in_dtype_range :: "'v \<Rightarrow> string \<Rightarrow> bool"
  io_auto :: "side \<Rightarrow> 'ds \<Rightarrow> bool \<Rightarrow> int"
  GDALGetDriverByName :: "string \<Rightarrow> pyerror option"
  GDALCreate :: "side \<Rightarrow> nat \<Rightarrow> nat \<Rightarrow> nat \<Rightarrow> string \<Rightarrow> pyerror + 'ds"
  osr_from_crs :: "'crs \<Rightarrow> pyerror + string"
  GDALSetGeoTransform :: "'ds \<Rightarrow> 'gt \<Rightarrow> bool"
  GDALSetProjection :: "'ds \<Rightarrow> string \<Rightarrow> bool"
  GDALCreateGenImgProjTransformer2 :: "'ds \<Rightarrow> 'ds \<Rightarrow> string_list \<Rightarrow> pyerror option"
  GDALCreateWarpOptions :: "string_list \<times> pyerror option"
  Initialize :: "('ds, 'v) warp_options \<Rightarrow> pyerror option"
  ChunkAndWarp :: "bool \<Rightarrow> ('ds, 'v) warp_options \<Rightarrow> nat \<Rightarrow> nat \<Rightarrow> pyerror option"

text \<open>What the resolution of the two sides (lines 199 to 357) leaves in the variables.\<close>

record ('ds, 'v) source_side =
  src_dataset :: 'ds
  src_bidx :: "int list"
  src_count :: nat
  src_nodata_resolved :: "'v option"

record ('ds, 'v) destination_side =
  dst_dataset :: 'ds
  dst_bidx :: "int list"
  dst_rows :: nat
  dst_cols :: nat
  dst_nodata_resolved :: "'v option"

text \<open>\<open>reshape(1, *shape)\<close> of a two-dimensional array.\<close>

definition promote :: "nat list \<Rightarrow> nat list" where
  "promote shp = (if length shp = 2 then 1 # shp else shp)"

text \<open>
  Lines 202 to 289. The element type lookup and the creation of the dataset are one
  native step; of the georeferencing of the temporary dataset only \<open>osr_from_crs\<close> can
  raise, and it is called only when a source transform is given. The status of
  \<open>io_auto\<close> is assigned to \<open>retval\<close> and not read again.
\<close>

definition resolve_source ::
  "('ds, 'crs, 'gt, 'v) warp_engine \<Rightarrow> ('ds, 'crs, 'gt, 'v) reproject_args
     \<Rightarrow> (pyerror + ('ds, 'v) source_side) \<times> ('ds, 'v) event list" where
  "resolve_source E a =
     (case source a of
        NDArray shape0 dtype fill_value \<Rightarrow>
          (let shp = promote shape0
           in if length shp < 3 then (Inl (IndexError ''tuple index out of range''), [])
              else
               (let count = shp ! 0; rows = shp ! 1; cols = shp ! 2;
                    bidx = map int [1..<count + 1];
                    nd = (case src_nodata a of None \<Rightarrow> fill_value | Some v \<Rightarrow> Some v)
                in case GDALGetDriverByName E ''MEM'' of
                     Some err \<Rightarrow> (Inl (DriverRegistrationError ''MEM driver not found''), [])
                   | None \<Rightarrow>
                      (case GDALCreate E SourceSide cols rows count dtype of
                         Inl err \<Rightarrow> (Inl err, [])
                       | Inr ds \<Rightarrow>
                          (case (case src_transform a of
                                   None \<Rightarrow> Inr []
                                 | Some gt \<Rightarrow> osr_from_crs E (src_crs a)) of
                             Inl err \<Rightarrow> (Inl err, [])
                           | Inr srcwkt \<Rightarrow>
                              (let retval = io_auto E SourceSide ds True
                               in (Inr \<lparr>src_dataset = ds, src_bidx = bidx, src_count = count,
                                        src_nodata_resolved = nd\<rparr>,
                                   [IoAuto ds True retval]))))))
      | Band rdr bidx dtype shp \<Rightarrow>
          (let bidx = (case bidx of Index i \<Rightarrow> [i] | Indexes l \<Rightarrow> l);
               nd = (case src_nodata a of None \<Rightarrow> nodata rdr | Some v \<Rightarrow> Some v)
           in (Inr \<lparr>src_dataset = handle rdr, src_bidx = bidx, src_count = length bidx,
                    src_nodata_resolved = nd\<rparr>, []))
      | Unsupported \<Rightarrow> (Inl (ValueError ''Invalid source''), []))"

text \<open>
  Lines 292 to 357. \<open>raise\<close> of a string (line 336) is a \<open>TypeError\<close>; so is indexing a
  missing destination transform. The destination inherits its nodata value from a
  masked array's \<open>fill_value\<close> or from the dataset when none is given.
\<close>

definition resolve_destination ::
  "('ds, 'crs, 'gt, 'v) warp_engine \<Rightarrow> ('ds, 'crs, 'gt, 'v) reproject_args
     \<Rightarrow> ('ds, 'v) source_side
     \<Rightarrow> (pyerror + ('ds, 'v) destination_side) \<times> ('ds, 'v) event list" where
  "resolve_destination E a src =
     (case destination a of
        NDArray shape0 dtype fill_value \<Rightarrow>
          (let shp = promote shape0
           in if shp = [] then (Inl (IndexError ''tuple index out of range''), [])
              else if shp ! 0 \<noteq> src_count src
              then (Inl (ValueError ''Destination's shape is invalid''), [])
              else
               (case GDALGetDriverByName E ''MEM'' of
                  Some err \<Rightarrow> (Inl (DriverRegistrationError ''MEM driver not found''), [])
                | None \<Rightarrow>
                   if length shp \<noteq> 3
                   then (Inl (ValueError ''wrong number of values to unpack''), [])
                   else
                    (let rows = shp ! 1; cols = shp ! 2
                     in case GDALCreate E DestinationSide cols rows (src_count src) dtype of
                          Inl err \<Rightarrow> (Inl err, [])
                        | Inr ds \<Rightarrow>
                           (case dst_transform a of
                              None \<Rightarrow> (Inl (TypeError ''NoneType object is not subscriptable''), [])
                            | Some gt \<Rightarrow>
                               if \<not> GDALSetGeoTransform E ds gt
                               then (Inl (ValueError
                                      ''Failed to set transform on temp destination dataset.''), [])
                               else
                                (case osr_from_crs E (dst_crs a) of
                                   Inl err \<Rightarrow> (Inl err, [])
                                 | Inr dstwkt \<Rightarrow>
                                    if \<not> GDALSetProjection E ds dstwkt
                                    then (Inl (TypeError
                                           ''exceptions must derive from BaseException''), [])
                                    else
                                     (let retval = io_auto E DestinationSide ds True;
                                          nd = (case dst_nodata a of
                                                  None \<Rightarrow> fill_value
                                                | Some v \<Rightarrow> Some v)
                                      in (Inr \<lparr>dst_dataset = ds, dst_bidx = src_bidx src,
                                               dst_rows = rows, dst_cols = cols,
                                               dst_nodata_resolved = nd\<rparr>,
                                          [IoAuto ds True retval])))))))
      | Band udr bidx dtype shp \<Rightarrow>
          (let bidx = (case bidx of Index i \<Rightarrow> [i] | Indexes l \<Rightarrow> l);
               nd = (case dst_nodata a of None \<Rightarrow> nodata udr | Some v \<Rightarrow> Some v)
           in (Inr \<lparr>dst_dataset = handle udr, dst_bidx = bidx,
                    dst_rows = fst shp, dst_cols = snd shp,
                    dst_nodata_resolved = nd\<rparr>, []))
      | Unsupported \<Rightarrow> (Inl (ValueError ''Invalid destination''), []))"

text \<open>The three releases made before each \<open>raise\<close> after line 378 and in the \<open>finally\<close>.\<close>

definition release :: "('ds, 'v) event list" where
  "release = [DestroyApproxTransformer, DestroyWarpOptions, FreeImgProjOptions]"

text \<open>
  Lines 363 to 394. The list returned by the call of line 365, which would hold
  \<open>GCPS_OK=TRUE\<close>, is not assigned: \<open>imgProjOptions\<close> is still \<open>NULL\<close> when the loop
  over the keyword arguments starts. The tolerance is 0.125. An error captured while the
  chain is built (lines 380 to 385) is raised by the check of line 386; the chain is
  recorded as built only when there is none.
\<close>

definition create_transformer ::
  "('ds, 'crs, 'gt, 'v) warp_engine \<Rightarrow> ('ds, 'crs, 'gt, 'v) reproject_args \<Rightarrow> 'ds \<Rightarrow> 'ds
     \<Rightarrow> (pyerror + ('ds transformer \<times> string_list)) \<times> ('ds, 'v) event list" where
  "create_transformer E a src dst =
     (let tolerance = 1 / 8;
          imgProjOptions = [];
          unassigned = CSLSetNameValue imgProjOptions ''GCPS_OK'' ''TRUE'';
          imgProjOptions = foldl (\<lambda>opts (key, val). CSLSetNameValue opts (upper key) (upper val))
                             imgProjOptions (kwargs a);
          hTransformArg = GenImgProjTransformer src dst imgProjOptions;
          hTransformArg = ApproxTransformer hTransformArg tolerance True;
          created = [CreateGenImgProjTransformer2 src dst imgProjOptions,
                     CreateApproxTransformer hTransformArg]
      in case GDALCreateGenImgProjTransformer2 E src dst imgProjOptions of
           Some err \<Rightarrow> (Inl err, CreateGenImgProjTransformer2 src dst imgProjOptions # release)
         | None \<Rightarrow>
            (case snd (GDALCreateWarpOptions E) of
               Some err \<Rightarrow> (Inl err, created @ release)
             | None \<Rightarrow> (Inr (hTransformArg, fst (GDALCreateWarpOptions E)), created)))"

text \<open>Lines 199 to 394, up to the point where the nodata values are settled.\<close>

definition prepare ::
  "('ds, 'crs, 'gt, 'v) warp_engine \<Rightarrow> ('ds, 'crs, 'gt, 'v) reproject_args
     \<Rightarrow> (pyerror + (('ds, 'v) source_side \<times> ('ds, 'v) destination_side
                     \<times> 'ds transformer \<times> string_list)) \<times> ('ds, 'v) event list" where
  "prepare E a =
     (case resolve_source E a of
        (Inl err, ev1) \<Rightarrow> (Inl err, ev1)
      | (Inr src, ev1) \<Rightarrow>
         (case resolve_destination E a src of
            (Inl err, ev2) \<Rightarrow> (Inl err, ev1 @ ev2)
          | (Inr dst, ev2) \<Rightarrow>
             (case create_transformer E a (src_dataset src) (dst_dataset dst) of
                (Inl err, ev3) \<Rightarrow> (Inl err, ev1 @ ev2 @ ev3)
              | (Inr (hTransformArg, defaults), ev3) \<Rightarrow>
                  (Inr (src, dst, hTransformArg, defaults), ev1 @ ev2 @ ev3))))"

text \<open>
  Lines 419 to 463, the values only: the source and destination nodata values that go
  into the warp options, or the \<open>ValueError\<close> raised.
\<close>

definition nodata_policy ::
  "('ds, 'crs, 'gt, 'v::zero) warp_engine \<Rightarrow> ('ds, 'crs, 'gt, 'v) reproject_args
     \<Rightarrow> 'v option \<Rightarrow> 'v option \<Rightarrow> pyerror + ('v option \<times> 'v)" where
  "nodata_policy E a src_nd dst_nd =
     (if src_nd = None \<and> dst_nd \<noteq> None
      then Inl (ValueError ''src_nodata must be provided because dst_nodata is not None'')
      else
       (let dst_nd = (case dst_nd of
                        None \<Rightarrow> (case src_nd of Some v \<Rightarrow> v | None \<Rightarrow> 0)
                      | Some v \<Rightarrow> v)
        in if (case src_nd of
                 Some v \<Rightarrow> \<not> in_dtype_range E v (dtype_of (source a))
               | None \<Rightarrow> False)
           then Inl (ValueError ''src_nodata must be in valid range for source dtype'')
           else if \<not> in_dtype_range E dst_nd (dtype_of (destination a))
           then Inl (ValueError ''dst_nodata must be in valid range for destination dtype'')
           else Inr (src_nd, dst_nd)))"

text \<open>
  Lines 399 to 416 and 445 to 488, once the nodata values have passed: the warp options
  structure, complete. The option list starts from the defaults of the new structure
  and takes the thread count, every keyword argument in upper case, the unified source
  nodata mark when a source nodata value is set, and the initialisation of the
  destination when it is asked for. The nodata arrays hold the value once per band, with
  imaginary part 0.
\<close>

definition warp_options_of ::
  "('ds, 'crs, 'gt, 'v::zero) reproject_args \<Rightarrow> ('ds, 'v) source_side
     \<Rightarrow> ('ds, 'v) destination_side \<Rightarrow> 'ds transformer \<Rightarrow> string_list \<Rightarrow> 'v option \<Rightarrow> 'v
     \<Rightarrow> ('ds, 'v) warp_options" where
  "warp_options_of a src dst hTransformArg defaults src_nd dst_nd =
     (let n = src_count src;
          warp_extras = CSLSetNameValue defaults ''NUM_THREADS'' (str_int (num_threads a));
          warp_extras = foldl (\<lambda>opts (key, val). CSLSetNameValue opts (upper key) (upper val))
                          warp_extras (kwargs a);
          warp_extras = (if src_nd \<noteq> None
                         then CSLSetNameValue warp_extras ''UNIFIED_SRC_NODATA'' ''YES''
                         else warp_extras);
          warp_extras = (if init_dest_nodata a
                         then CSLSetNameValue warp_extras ''INIT_DEST'' ''NO_DATA''
                         else warp_extras)
      in \<lparr>eResampleAlg = resampling a,
          papszWarpOptions = warp_extras,
          padfSrcNoDataReal = map_option (replicate n) src_nd,
          padfSrcNoDataImag = map_option (\<lambda>v. replicate n 0) src_nd,
          padfDstNoDataReal = replicate n dst_nd,
          padfDstNoDataImag = replicate n 0,
          pTransformerArg = hTransformArg,
          hSrcDS = src_dataset src,
          hDstDS = dst_dataset dst,
          nBandCount = n,
          panSrcBands = take n (src_bidx src),
          panDstBands = take n (dst_bidx dst)\<rparr>)"

text \<open>
  Lines 486 to 529: the band indexes are copied (a destination with fewer indexes than
  the source has bands raises here, before the \<open>try\<close>), the warper is initialised and
  run over the whole destination, the result is read back into a destination array, and
  everything is released. The status of \<open>io_auto\<close> is again assigned and not read.
\<close>

definition execute_warp ::
  "('ds, 'crs, 'gt, 'v::zero) warp_engine \<Rightarrow> ('ds, 'crs, 'gt, 'v) reproject_args
     \<Rightarrow> ('ds, 'v) source_side \<Rightarrow> ('ds, 'v) destination_side \<Rightarrow> 'ds transformer \<Rightarrow> string_list
     \<Rightarrow> 'v option \<Rightarrow> 'v
     \<Rightarrow> (pyerror + unit) \<times> ('ds, 'v) event list" where
  "execute_warp E a src dst hTransformArg defaults src_nd dst_nd =
     (if length (dst_bidx dst) < src_count src
      then (Inl (IndexError ''list index out of range''), [])
      else
       (let psWOptions = warp_options_of a src dst hTransformArg defaults src_nd dst_nd;
            closing = release @ (if is_ndarray (source a) then [Close (src_dataset src)] else [])
        in case Initialize E psWOptions of
             Some err \<Rightarrow> (Inl err, WarpInitialize psWOptions # closing)
           | None \<Rightarrow>
              (let multi = (1 < num_threads a);
                   warp = (if multi then ChunkAndWarpMulti 0 0 (dst_cols dst) (dst_rows dst)
                           else ChunkAndWarpImage 0 0 (dst_cols dst) (dst_rows dst))
               in case ChunkAndWarp E multi psWOptions (dst_cols dst) (dst_rows dst) of
                    Some err \<Rightarrow> (Inl err, [WarpInitialize psWOptions, warp] @ closing)
                  | None \<Rightarrow>
                     (let reading =
                            (if is_ndarray (destination a)
                             then [IoAuto (dst_dataset dst) False
                                     (io_auto E DestinationSide (dst_dataset dst) False),
                                   Close (dst_dataset dst)]
                             else [])
                      in (Inr (), [WarpInitialize psWOptions, warp] @ reading @ closing)))))"

definition reproject ::
  "('ds, 'crs, 'gt, 'v::zero) warp_engine \<Rightarrow> ('ds, 'crs, 'gt, 'v) reproject_args
     \<Rightarrow> (pyerror + unit) \<times> ('ds, 'v) event list" where
  "reproject E a =
     (case prepare E a of
        (Inl err, ev) \<Rightarrow> (Inl err, ev)
      | (Inr (src, dst, hTransformArg, defaults), ev) \<Rightarrow>
         (case nodata_policy E a (src_nodata_resolved src) (dst_nodata_resolved dst) of
            Inl err \<Rightarrow> (Inl err, ev @ release)
          | Inr (src_nd, dst_nd) \<Rightarrow>
             (case execute_warp E a src dst hTransformArg defaults src_nd dst_nd of
                (r, ev') \<Rightarrow> (r, ev @ ev'))))"


text \<open>
  Readings of the recorded calls: the option structures the warper was initialised
  with, whether a warp was run, and the option lists the exact transformer was built
  with.
\<close>

definition initialized :: "('ds, 'v) event list \<Rightarrow> ('ds, 'v) warp_options list" where
  "initialized ev = concat (map (\<lambda>e. case e of WarpInitialize opts \<Rightarrow> [opts] | _ \<Rightarrow> []) ev)"

definition warp_executed :: "('ds, 'v) event list \<Rightarrow> bool" where
  "warp_executed ev =
     list_ex (\<lambda>e. case e of ChunkAndWarpImage x y c r \<Rightarrow> True
                          | ChunkAndWarpMulti x y c r \<Rightarrow> True
                          | _ \<Rightarrow> False) ev"

definition transformer_options :: "('ds, 'v) event list \<Rightarrow> string_list list" where
  "transformer_options ev =
     concat (map (\<lambda>e. case e of CreateGenImgProjTransformer2 src dst opts \<Rightarrow> [opts]
                              | _ \<Rightarrow> []) ev)"

text \<open>
  The specification's words on nodata. The source value is resolvable when it is given,
  or else inherited from a masked buffer's fill value or from the source handle. The
  specification's effective destination value is the one given, or else the source
  value when there is one, or else 0.
\<close>

definition spec_src_nodata :: "('ds, 'crs, 'gt, 'v) reproject_args \<Rightarrow> 'v option" where
  "spec_src_nodata a =
     (case src_nodata a of
        Some v \<Rightarrow> Some v
      | None \<Rightarrow>
         (case source a of
            NDArray shp dt fill_value \<Rightarrow> fill_value
          | Band rdr b dt shp \<Rightarrow> nodata rdr
          | Unsupported \<Rightarrow> None))"

definition spec_effective_dst_nodata :: "('ds, 'crs, 'gt, 'v::zero) reproject_args \<Rightarrow> 'v" where
  "spec_effective_dst_nodata a =
     (case dst_nodata a of
        Some v \<Rightarrow> v
      | None \<Rightarrow> (case spec_src_nodata a of Some v \<Rightarrow> v | None \<Rightarrow> 0))"

text \<open>
  The same, amended to what the code does: a destination value not given is first
  inherited from the destination itself (a masked buffer's fill value, or the
  destination handle's nodata); the value in force is the one given or inherited.
\<close>

definition dst_nodata_in_force :: "('ds, 'crs, 'gt, 'v) reproject_args \<Rightarrow> 'v option" where
  "dst_nodata_in_force a =
     (case dst_nodata a of
        Some v \<Rightarrow> Some v
      | None \<Rightarrow>
         (case destination a of
            NDArray shp dt fill_value \<Rightarrow> fill_value
          | Band udr b dt shp \<Rightarrow> nodata udr
          | Unsupported \<Rightarrow> None))"

definition effective_dst_nodata :: "('ds, 'crs, 'gt, 'v::zero) reproject_args \<Rightarrow> 'v" where
  "effective_dst_nodata a =
     (case dst_nodata_in_force a of
        Some v \<Rightarrow> v
      | None \<Rightarrow> (case spec_src_nodata a of Some v \<Rightarrow> v | None \<Rightarrow> 0))"

subsection \<open>A concrete engine and call for the examples\<close>

text \<open>
  Modelled from the spec: \<open>in_dtype_range\<close> is declared in \<open>_io.pxd\<close> and its body is not
  among the sources. A value is in range when it lies within the representable range of
  the element type; here for integer values and the element types \<open>_io.pxd\<close> names, the
  two floating-point types by their largest finite values.
\<close>

definition dtype_range :: "string \<Rightarrow> (int \<times> int) option" where
  "dtype_range dt =
     map_of [(''uint8'', (0, 255)),
             (''uint16'', (0, 65535)),
             (''int16'', (- 32768, 32767)),
             (''uint32'', (0, 4294967295)),
             (''int32'', (- 2147483648, 2147483647)),
             (''float32'', (- (2 ^ 128 - 2 ^ 104), 2 ^ 128 - 2 ^ 104)),
             (''float64'', (- (2 ^ 1024 - 2 ^ 971), 2 ^ 1024 - 2 ^ 971))] dt"

definition in_dtype_range_int :: "int \<Rightarrow> string \<Rightarrow> bool" where
  "in_dtype_range_int v dt =
     (case dtype_range dt of Some (lo, hi) \<Rightarrow> lo \<le> v \<and> v \<le> hi | None \<Rightarrow> False)"

text \<open>
  An engine in which every native step succeeds: the temporary source dataset gets the
  handle 1, the temporary destination dataset the handle 2.
\<close>

definition example_warp_engine :: "(nat, string, rat list, int) warp_engine" where
  "example_warp_engine =
     \<lparr>in_dtype_range = in_dtype_range_int,
      io_auto = (\<lambda>sd ds write. 0),
      GDALGetDriverByName = (\<lambda>name. if name = ''MEM'' then None
                                       else Some (CPLE_BaseError ''no such driver'')),
      GDALCreate = (\<lambda>sd cols rows count dt.
                      Inr (case sd of SourceSide \<Rightarrow> 1 | DestinationSide \<Rightarrow> 2)),
      osr_from_crs = (\<lambda>crs. if crs = [] then Inl (CRSError ''empty CRS'') else Inr crs),
      GDALSetGeoTransform = (\<lambda>ds gt. True),
      GDALSetProjection = (\<lambda>ds wkt. True),
      GDALCreateGenImgProjTransformer2 = (\<lambda>src dst opts. None),
      GDALCreateWarpOptions = ([], None),
      Initialize = (\<lambda>opts. None),
      ChunkAndWarp = (\<lambda>multi opts cols rows. None)\<rparr>"

text \<open>
  A call on two unmasked 1 by 4 by 4 arrays of unsigned 8-bit elements with the same
  georeferencing and no nodata value given.
\<close>

definition example_args :: "(nat, string, rat list, int) reproject_args" where
  "example_args =
     \<lparr>source = NDArray [1, 4, 4] ''uint8'' None,
      destination = NDArray [1, 4, 4] ''uint8'' None,
      src_transform = Some [0, 1, 0, 4, 0, - 1],
      src_crs = ''EPSG:4326'',
      src_nodata = None,
      dst_transform = Some [0, 1, 0, 4, 0, - 1],
      dst_crs = ''EPSG:4326'',
      dst_nodata = None,
      resampling = 0,
      init_dest_nodata = True,
      num_threads = 1,
      kwargs = []\<rparr>"

section \<open>Properties of the transfer operations\<close>

text \<open>
  Setting an option from a Python string never faults: the entry of the option is
  replaced by a new one, and only the value of that option changes.
\<close>

lemma CPLSetConfigOption_bytes:
  "CPLSetConfigOption cfg key (PyBytes v) =
     Inr \<lparr>entries = filter (\<lambda>e. fst e \<noteq> key) (entries cfg) @ [(key, allocations cfg, v)],
          allocations = Suc (allocations cfg)\<rparr>"
  by (simp add: CPLSetConfigOption_def c_str_def)

lemma map_of_filter_key:
  "map_of (filter (\<lambda>e. fst e \<noteq> key) es) k = (if k = key then None else map_of es k)"
  by (induction es) auto

lemma value_of_override:
  "value_of \<lparr>entries = filter (\<lambda>e. fst e \<noteq> key) (entries cfg) @ [(key, a, v)], allocations = n\<rparr>
     = (value_of cfg)(key \<mapsto> v)"
  by (auto simp: value_of_def fun_eq_iff map_of_filter_key map_add_def split: option.splits)

text \<open>
  The last three lines of each function. With \<open>stored_val = NULL\<close> (the option was not
  set at entry) they unset the option and return the status. With a pointer into the
  table they fault: the entry it pointed into was released by the override, and were
  the string still readable, the pointer is not one that \<open>CPLFree\<close> may be given.
\<close>

lemma restore_and_return_NULL:
  "restore_and_return NULL retval s =
     (Inr retval,
      s\<lparr>config := (config s)\<lparr>entries := filter (\<lambda>e. fst e \<noteq> ''GDAL_RASTERIO_RESAMPLING'') (entries (config s))\<rparr>\<rparr>)"
  by (simp add: restore_and_return_def CPLSetConfigOption_def CPLFree_def)

lemma restore_and_return_Internal:
  "\<exists>fault. fst (restore_and_return (Internal a) retval s) = Inl fault"
  by (simp add: restore_and_return_def CPLSetConfigOption_def CPLFree_def split: option.splits sum.splits)

lemma restore_and_return_transfers:
  "transfers (snd (restore_and_return p retval s)) = transfers s"
  by (simp add: restore_and_return_def split: option.splits sum.splits)

lemma restore_and_return_status:
  "fst (restore_and_return p retval s) = Inr retval
     \<or> (\<exists>fault. fst (restore_and_return p retval s) = Inl fault)"
  by (simp add: restore_and_return_def split: option.splits sum.splits)

lemma unset_filter:
  "CPLGetConfigOption cfg key NULL = NULL \<Longrightarrow> filter (\<lambda>e. fst e \<noteq> key) (entries cfg) = entries cfg"
proof -
  assume "CPLGetConfigOption cfg key NULL = NULL"
  then have "map_of (entries cfg) key = None"
    by (simp add: CPLGetConfigOption_def split: option.splits prod.splits)
  then have "key \<notin> fst ` set (entries cfg)"
    by (simp add: map_of_eq_None_iff)
  then show ?thesis
    by (intro filter_True) force
qed

text \<open>The loop touches neither the options nor the record of unraisable exceptions.\<close>

lemma mask_loop_config: "config (snd (mask_loop E hds mode win data i xs r s)) = config s"
  by (induction xs arbitrary: i r s) (auto simp: Let_def split: sum.splits prod.splits)

lemma mask_loop_unraisable: "unraisable (snd (mask_loop E hds mode win data i xs r s)) = unraisable s"
  by (induction xs arbitrary: i r s) (auto simp: Let_def split: sum.splits prod.splits)

text \<open>
  A run of indexes that all transfer with status 0 is passed over: the loop continues
  behind it with their transfers recorded, in order.
\<close>

lemma mask_loop_prefix:
  assumes "\<forall>k<length pre. \<exists>c. mask_channel E hds mode win data (value_of (config s)) (i + k) (pre ! k) = Inr (c, 0)"
  shows "mask_loop E hds mode win data i (pre @ rest) r s =
         mask_loop E hds mode win data (i + length pre) rest (if pre = [] then r else 0)
           (s\<lparr>transfers := transfers s @
                map (\<lambda>k. fst (projr (mask_channel E hds mode win data (value_of (config s)) (i + k) (pre ! k)))) [0..<length pre]\<rparr>)"
  using assms
proof (induction pre arbitrary: i r s)
  case Nil
  then show ?case by simp
next
  case (Cons a pre)
  from Cons.prems obtain c where c: "mask_channel E hds mode win data (value_of (config s)) i a = Inr (c, 0)"
    by fastforce
  let ?s' = "s\<lparr>transfers := transfers s @ [c]\<rparr>"
  have step: "\<forall>k<length pre. \<exists>c. mask_channel E hds mode win data (value_of (config ?s')) (Suc i + k) (pre ! k) = Inr (c, 0)"
    using Cons.prems by fastforce
  have map_eq: "map (\<lambda>k. fst (projr (mask_channel E hds mode win data (value_of (config s)) (i + k) ((a # pre) ! k)))) [0..<length (a # pre)]
      = c # map (\<lambda>k. fst (projr (mask_channel E hds mode win data (value_of (config s)) (Suc i + k) (pre ! k)))) [0..<length pre]"
    using c by (simp add: upt_rec[of 0] map_Suc_upt[symmetric] del: upt_Suc)
  show ?case
    unfolding map_eq using Cons.IH[OF step, of 0] c
    by (simp add: Let_def del: upt_Suc)
qed

text \<open>
  What \<open>io_multi_mask\<close> does at the first index that does not transfer with status 0,
  the indexes before it all having done so. The transfers made are those of the earlier
  indexes, in selection order, followed by the failing transfer when there was one;
  nothing is attempted for the indexes behind. If the index raised, the exception is
  written out as unraisable and the call returns 0. If its transfer reported a non-zero
  status, the call returns that status or stops in a memory fault, and it does return
  when the option was not set at entry.
\<close>

lemma io_multi_mask_first_failure_outcome:
  assumes res: "Resampling E rs = Some name"
    and ok: "\<forall>k<length pre. \<exists>c. mask_channel E hds mode win data
                ((value_of (config s))(''GDAL_RASTERIO_RESAMPLING'' \<mapsto> upper name)) k (pre ! k) = Inr (c, 0)"
  shows "let opts = (value_of (config s))(''GDAL_RASTERIO_RESAMPLING'' \<mapsto> upper name);
             calls = map (\<lambda>k. fst (projr (mask_channel E hds mode win data opts k (pre ! k)))) [0..<length pre];
             failing = mask_channel E hds mode win data opts (length pre) x;
             out = io_multi_mask E hds mode win data (pre @ x # post) rs s
         in (\<forall>err. failing = Inl err \<longrightarrow>
               fst out = Inr 0 \<and> unraisable (snd out) = unraisable s @ [err] \<and>
               transfers (snd out) = transfers s @ calls)
          \<and> (\<forall>call status. failing = Inr (call, status) \<and> status \<noteq> 0 \<longrightarrow>
               transfers (snd out) = transfers s @ calls @ [call] \<and>
               unraisable (snd out) = unraisable s \<and>
               (fst out = Inr status \<or> (\<exists>fault. fst out = Inl fault)) \<and>
               (CPLGetConfigOption (config s) ''GDAL_RASTERIO_RESAMPLING'' NULL = NULL \<longrightarrow> fst out = Inr status))"
proof -
  define stored where "stored = CPLGetConfigOption (config s) ''GDAL_RASTERIO_RESAMPLING'' NULL"
  define cfg where "cfg = \<lparr>entries = filter (\<lambda>e. fst e \<noteq> ''GDAL_RASTERIO_RESAMPLING'') (entries (config s))
                               @ [(''GDAL_RASTERIO_RESAMPLING'', allocations (config s), upper name)],
                            allocations = Suc (allocations (config s))\<rparr>"
  define opts where "opts = (value_of (config s))(''GDAL_RASTERIO_RESAMPLING'' \<mapsto> upper name)"
  define s1 where "s1 = s\<lparr>config := cfg\<rparr>"
  define calls where "calls = map (\<lambda>k. fst (projr (mask_channel E hds mode win data opts k (pre ! k)))) [0..<length pre]"
  define s2 where "s2 = s1\<lparr>transfers := transfers s1 @ calls\<rparr>"
  define failing where "failing = mask_channel E hds mode win data opts (length pre) x"
  define out where "out = io_multi_mask E hds mode win data (pre @ x # post) rs s"
  have opts1: "value_of (config s1) = opts"
    by (simp add: s1_def cfg_def opts_def value_of_override)
  have ok1: "\<forall>k<length pre. \<exists>c. mask_channel E hds mode win data (value_of (config s1)) (0 + k) (pre ! k) = Inr (c, 0)"
    using ok by (simp add: opts1 opts_def)
  have loop: "mask_loop E hds mode win data 0 (pre @ x # post) 3 s1 =
              mask_loop E hds mode win data (length pre) (x # post) (if pre = [] then 3 else 0) s2"
    using mask_loop_prefix[OF ok1, of "x # post" 3] by (simp add: s2_def calls_def opts1)
  have "out = (case mask_loop E hds mode win data 0 (pre @ x # post) 3 s1 of
                  (Inl err, s3) \<Rightarrow> write_unraisable err s3
                | (Inr retval, s3) \<Rightarrow> restore_and_return stored retval s3)"
    unfolding out_def stored_def s1_def cfg_def using res
    by (simp add: io_multi_mask_def Let_def CPLSetConfigOption_bytes)
  then have out_eq: "out = (case mask_loop E hds mode win data (length pre) (x # post) (if pre = [] then 3 else 0) s2 of
                  (Inl err, s3) \<Rightarrow> write_unraisable err s3
                | (Inr retval, s3) \<Rightarrow> restore_and_return stored retval s3)"
    unfolding loop .
  have opts2: "value_of (config s2) = opts" by (simp add: s2_def opts1)
  have tr2: "transfers s2 = transfers s @ calls" by (simp add: s2_def s1_def)
  have un2: "unraisable s2 = unraisable s" by (simp add: s2_def s1_def)
  have raise: "fst out = Inr 0 \<and> unraisable (snd out) = unraisable s @ [err] \<and>
               transfers (snd out) = transfers s @ calls" if "failing = Inl err" for err
    using that by (simp add: out_eq failing_def opts2 tr2 un2 write_unraisable_def)
  have brk: "transfers (snd out) = transfers s @ calls @ [call] \<and>
             unraisable (snd out) = unraisable s \<and>
             (fst out = Inr status \<or> (\<exists>fault. fst out = Inl fault)) \<and>
             (stored = NULL \<longrightarrow> fst out = Inr status)"
    if f: "failing = Inr (call, status)" and nz: "status \<noteq> 0" for call status
  proof -
    have o: "out = restore_and_return stored status (s2\<lparr>transfers := transfers s2 @ [call]\<rparr>)"
      using f nz by (simp add: out_eq failing_def opts2 Let_def)
    have t1: "transfers (snd out) = transfers s @ calls @ [call]"
      by (simp add: o restore_and_return_transfers tr2)
    have t2: "unraisable (snd out) = unraisable s"
      by (simp add: o restore_and_return_def un2 split: option.splits sum.splits)
    have t3: "fst out = Inr status \<or> (\<exists>fault. fst out = Inl fault)"
      unfolding o by (rule restore_and_return_status)
    have t4: "stored = NULL \<longrightarrow> fst out = Inr status"
      by (simp add: o restore_and_return_NULL)
    from t1 t2 t3 t4 show ?thesis by (intro conjI)
  qed
  show ?thesis
    unfolding Let_def opts_def[symmetric] calls_def[symmetric] failing_def[symmetric] out_def[symmetric]
      stored_def[symmetric]
    by (intro conjI allI impI; (use raise brk in blast))
qed

text \<open>
  Claim C6 holds of the code only in part: a concrete call where it fails. On the example
  dataset, with no option set, the selection is 1, 5, 2. Index 1 transfers; the dataset
  has no band 5, so the loop raises \<open>ValueError("Null band")\<close>, and index 2 is not
  attempted. So far the code does what the claim says. But the failure is not surfaced:
  the exception is written out as unraisable, and the caller gets the status 0, the
  status of a successful transfer, and no \<open>NullChannelFailure\<close>.
\<close>

theorem io_multi_mask_null_channel_returns_success:
  "fst (io_multi_mask example_gdal 0 0 example_window example_data [1, 5, 2] 0 example_state) = Inr 0
   \<and> spec_failure_kind (fst (io_multi_mask example_gdal 0 0 example_window example_data [1, 5, 2] 0 example_state))
       = None
   \<and> unraisable (snd (io_multi_mask example_gdal 0 0 example_window example_data [1, 5, 2] 0 example_state))
       = [ValueError ''Null band'']
   \<and> transfers (snd (io_multi_mask example_gdal 0 0 example_window example_data [1, 5, 2] 0 example_state))
       = [RasterIO 111 0 example_window 1000 example_layout 1]"
  by (simp add: io_multi_mask_def mask_channel_def example_gdal_def example_data_def example_state_def
      Resampling_enum_def CPLGetConfigOption_def CPLSetConfigOption_bytes c_int_def
      write_unraisable_def spec_failure_kind_def)

text \<open>
  Claim C5, as stated, fails: with an empty selection \<open>io_multi_mask\<close> raises nothing
  and writes no exception out. It returns its initial \<open>retval\<close>, the status 3, exactly
  as it does for the selection of the one index 4, whose transfer fails with the status
  3; the outcome is not an \<open>InvalidInput\<close>.
\<close>

theorem io_multi_mask_empty_selection_counterexample:
  "fst (io_multi_mask example_gdal 0 0 example_window (example_data\<lparr>slices := []\<rparr>) [] 0 example_state)
     = Inr 3
   \<and> unraisable (snd (io_multi_mask example_gdal 0 0 example_window (example_data\<lparr>slices := []\<rparr>) [] 0 example_state))
     = []
   \<and> fst (io_multi_mask example_gdal 0 0 example_window example_data [4] 0 example_state) = Inr 3
   \<and> spec_failure_kind
       (fst (io_multi_mask example_gdal 0 0 example_window (example_data\<lparr>slices := []\<rparr>) [] 0 example_state))
     \<noteq> Some InvalidInput"
  by (simp add: io_multi_mask_def mask_channel_def example_gdal_def example_data_def example_state_def
      Resampling_enum_def CPLGetConfigOption_def CPLSetConfigOption_bytes c_int_def
      restore_and_return_NULL spec_failure_kind_def)

text \<open>
  Claim C5, amended. With an empty selection, a resampling value that names a member of
  the enumeration, and the option not set at entry, \<open>io_multi_mask\<close> requests no
  transfer, writes no exception out, and returns the non-zero status 3, the value
  \<open>retval\<close> is initialised with: for the caller a failure of the kind a failed transfer
  has (\<open>IOFailure\<close>).
\<close>

theorem io_multi_mask_empty_selection:
  assumes "Resampling E rs = Some name"
    and "CPLGetConfigOption (config s) ''GDAL_RASTERIO_RESAMPLING'' NULL = NULL"
  shows "fst (io_multi_mask E hds mode win data [] rs s) = Inr 3
       \<and> spec_failure_kind (fst (io_multi_mask E hds mode win data [] rs s)) = Some IOFailure
       \<and> transfers (snd (io_multi_mask E hds mode win data [] rs s)) = transfers s
       \<and> unraisable (snd (io_multi_mask E hds mode win data [] rs s)) = unraisable s"
  using assms
  by (simp add: io_multi_mask_def spec_failure_kind_def CPLSetConfigOption_bytes restore_and_return_NULL)

text \<open>The empty selection on the example dataset, with cubic resampling and no option set.\<close>

theorem io_multi_mask_empty_selection_witness:
  "Resampling example_gdal 2 = Some ''cubic''
   \<and> CPLGetConfigOption (config example_state) ''GDAL_RASTERIO_RESAMPLING'' NULL = NULL
   \<and> fst (io_multi_mask example_gdal 0 0 example_window (example_data\<lparr>slices := []\<rparr>) [] 2 example_state) = Inr 3
   \<and> transfers (snd (io_multi_mask example_gdal 0 0 example_window (example_data\<lparr>slices := []\<rparr>) [] 2 example_state))
       = []"
proof -
  have res: "Resampling example_gdal 2 = Some ''cubic''"
    by (simp add: example_gdal_def Resampling_enum_def)
  have unset: "CPLGetConfigOption (config example_state) ''GDAL_RASTERIO_RESAMPLING'' NULL = NULL"
    by (simp add: example_state_def CPLGetConfigOption_def)
  have tr: "transfers example_state = []"
    by (simp add: example_state_def)
  from io_multi_mask_empty_selection[OF res unset] res unset tr show ?thesis by simp
qed



text \<open>
  What holds of the option \<open>GDAL_RASTERIO_RESAMPLING\<close>. When it is not set at entry,
  \<open>io_band\<close> and \<open>io_multi_band\<close> leave the table as it was, and so does \<open>io_multi_mask\<close>
  when no exception is raised in its loop. When it is set at entry, \<open>io_band\<close> and
  \<open>io_multi_band\<close> stop in a memory fault: \<open>stored_val\<close> points into the entry that the
  override released.
\<close>

lemma io_band_restores_unset:
  assumes "CPLGetConfigOption (config s) ''GDAL_RASTERIO_RESAMPLING'' NULL = NULL"
  shows "entries (config (snd (io_band E band mode win data rs s))) = entries (config s)"
  using assms unset_filter[OF assms]
  by (simp add: io_band_def Let_def CPLSetConfigOption_bytes restore_and_return_NULL write_unraisable_def
      split: option.splits)

lemma io_multi_band_restores_unset:
  assumes "CPLGetConfigOption (config s) ''GDAL_RASTERIO_RESAMPLING'' NULL = NULL"
  shows "entries (config (snd (io_multi_band E hds mode win data indexes rs s))) = entries (config s)"
  using assms unset_filter[OF assms]
  by (simp add: io_multi_band_def Let_def CPLSetConfigOption_bytes restore_and_return_NULL write_unraisable_def
      split: option.splits)

lemma io_band_faults_when_set:
  assumes "Resampling E rs = Some name"
    and "CPLGetConfigOption (config s) ''GDAL_RASTERIO_RESAMPLING'' NULL = Internal a"
  shows "\<exists>fault. fst (io_band E band mode win data rs s) = Inl fault"
  using assms restore_and_return_Internal
  by (simp add: io_band_def Let_def CPLSetConfigOption_bytes)

lemma io_multi_band_faults_when_set:
  assumes "Resampling E rs = Some name"
    and "CPLGetConfigOption (config s) ''GDAL_RASTERIO_RESAMPLING'' NULL = Internal a"
  shows "\<exists>fault. fst (io_multi_band E hds mode win data indexes rs s) = Inl fault"
  using assms restore_and_return_Internal
  by (simp add: io_multi_band_def Let_def CPLSetConfigOption_bytes)

lemma io_band_set_example:
  "fst (io_band example_gdal 11 0 example_window
          \<lparr>PyArray_DATA = 1000, layout = example_layout, buftype = 1\<rparr> 1 example_state_set)
     = Inl UseAfterFree"
  by (simp add: io_band_def example_gdal_def example_state_set_def Resampling_enum_def
      CPLGetConfigOption_def CPLSetConfigOption_bytes restore_and_return_def CPLSetConfigOption_def
      c_str_def)

text \<open>
  Claim C4 holds of the code only in part: a concrete call where it fails. The option is
  not set before the call. Index 1 transfers; the dataset has no band 5, so the loop
  raises \<open>ValueError\<close>, and the function is left from there, past the two lines that
  restore the option: after the call the option is set, to the override \<open>NEAREST\<close>.
\<close>

theorem io_multi_mask_raise_leaves_override:
  "CPLGetConfigOption (config example_state) ''GDAL_RASTERIO_RESAMPLING'' NULL = NULL
   \<and> value_of (config example_state) ''GDAL_RASTERIO_RESAMPLING'' = None
   \<and> unraisable (snd (io_multi_mask example_gdal 0 0 example_window example_data [1, 5] 0 example_state))
       = [ValueError ''Null band'']
   \<and> value_of
        (config (snd (io_multi_mask example_gdal 0 0 example_window example_data [1, 5] 0 example_state)))
        ''GDAL_RASTERIO_RESAMPLING'' = Some ''NEAREST''"
  by (simp add: io_multi_mask_def mask_channel_def example_gdal_def example_data_def example_state_def
      Resampling_enum_def CPLGetConfigOption_def CPLSetConfigOption_bytes c_int_def upper_def upper_char_def
      write_unraisable_def value_of_def)

section \<open>Properties of coordinate rounding and of the coordinate transform bridge\<close>

text \<open>Rounding keeps the nesting, and acts on each number where it stands.\<close>

lemma shape_recursive_round: "shape (recursive_round rnd val p) = shape val"
  unfolding shape_def by (induction val) simp_all

lemma recursive_round_idem_iff:
  "recursive_round rnd (recursive_round rnd val p) p = recursive_round rnd val p
     \<longleftrightarrow> (\<forall>x \<in> set_coords val. rnd (rnd x p) p = rnd x p)"
  by (induction val) auto

lemma component_recursive_round:
  "component path (recursive_round rnd val p) = map_option (\<lambda>v. rnd v p) (component path val)"
proof (induction path arbitrary: val)
  case Nil
  then show ?case by (cases val) simp_all
next
  case (Cons i path)
  then show ?case by (cases val) simp_all
qed

text \<open>Exact decimal rounding is idempotent at every precision from 0 on.\<close>

lemma round_half_even_of_int: "round_half_even (of_int n) = n"
  by (simp add: round_half_even_def)

lemma round_decimal_idem:
  assumes "0 \<le> p"
  shows "round_decimal (round_decimal x p) p = round_decimal x p"
proof -
  have "round_decimal x p * 10 ^ nat p = of_int (round_half_even (x * 10 ^ nat p))"
    using assms by (simp add: round_decimal_def)
  then show ?thesis
    using assms by (simp add: round_decimal_def round_half_even_of_int)
qed

text \<open>
  Rounding to the nearest integer, halves to the even one: the result is within one half
  of the argument, and it is the only integer strictly within one half of it.
\<close>

lemma round_half_even_error: "\<bar>of_int (round_half_even z) - z\<bar> \<le> 1 / 2"
  unfolding round_half_even_def Let_def
  by (auto simp: abs_if; linarith)

lemma round_half_even_unique:
  assumes "\<bar>of_int n - z\<bar> < 1 / 2"
  shows "round_half_even z = n"
proof -
  have a: "of_int n - 1 / 2 < z" "z < of_int n + 1 / 2"
    using assms by (auto simp: abs_if split: if_splits)
  have "\<lfloor>z\<rfloor> = n \<or> \<lfloor>z\<rfloor> = n - 1"
    using a by (auto simp: floor_eq_iff; linarith)
  then show ?thesis
  proof
    assume f: "\<lfloor>z\<rfloor> = n"
    then show ?thesis using a by (simp add: round_half_even_def)
  next
    assume f: "\<lfloor>z\<rfloor> = n - 1"
    then show ?thesis using a by (simp add: round_half_even_def)
  qed
qed



text \<open>The binary exponent brackets the magnitude between two neighbouring powers of two.\<close>

lemma bitlen_powi:
  assumes "0 < a"
  shows "1 \<le> bitlen a"
    and "(2::rat) powi (bitlen a - 1) \<le> of_int a"
    and "(of_int a :: rat) < 2 powi (bitlen a)"
proof -
  from bitlen_bounds[OF assms]
  have lo: "2 ^ nat (bitlen a - 1) \<le> a" and hi: "a < 2 ^ nat (bitlen a)" by simp_all
  show one: "1 \<le> bitlen a"
  proof (rule ccontr)
    assume "\<not> 1 \<le> bitlen a"
    then have "nat (bitlen a) = 0" by simp
    with hi assms show False by simp
  qed
  have "(2::rat) powi (bitlen a - 1) = of_int (2 ^ nat (bitlen a - 1))"
    using one by (simp add: power_int_def)
  also have "\<dots> \<le> of_int a" using lo by (simp only: of_int_le_iff)
  finally show "(2::rat) powi (bitlen a - 1) \<le> of_int a" .
  have "(of_int a :: rat) < of_int (2 ^ nat (bitlen a))" using hi by (simp only: of_int_less_iff)
  also have "\<dots> = 2 powi (bitlen a)" using one by (simp add: power_int_def)
  finally show "(of_int a :: rat) < 2 powi (bitlen a)" .
qed

lemma ilog2_bounds:
  assumes "x \<noteq> 0"
  shows "2 powi (ilog2 x) \<le> \<bar>x\<bar>" and "\<bar>x\<bar> < 2 powi (ilog2 x + 1)"
proof -
  obtain a b where q: "quotient_of \<bar>x\<bar> = (a, b)" by (cases "quotient_of \<bar>x\<bar>")
  have b: "0 < b" using quotient_of_denom_pos[OF q] .
  have x: "\<bar>x\<bar> = of_int a / of_int b" using quotient_of_div[OF q] .
  have a: "0 < a"
  proof -
    have "0 < \<bar>x\<bar>" using assms by simp
    then have "0 < (of_int a :: rat) / of_int b" using x by simp
    then show ?thesis using b by (simp add: zero_less_divide_iff)
  qed
  define l where "l = bitlen a - bitlen b"
  note A = bitlen_powi[OF a] and B = bitlen_powi[OF b]
  have "(of_int a :: rat) / of_int b < 2 powi (bitlen a) / 2 powi (bitlen b - 1)"
    using a b A B by (intro frac_less) simp_all
  also have "\<dots> = 2 powi (l + 1)"
    by (simp add: l_def power_int_diff[symmetric] algebra_simps)
  finally have up: "\<bar>x\<bar> < 2 powi (l + 1)" using x by simp
  have "(2::rat) powi (bitlen a - 1) / 2 powi (bitlen b) < of_int a / of_int b"
    using a b A B by (intro frac_less2) simp_all
  moreover have "(2::rat) powi (bitlen a - 1) / 2 powi (bitlen b) = 2 powi (l - 1)"
    by (simp add: l_def power_int_diff[symmetric] algebra_simps)
  ultimately have lo: "2 powi (l - 1) < \<bar>x\<bar>" using x by simp
  have il: "ilog2 x = (if 2 powi l \<le> \<bar>x\<bar> then l else l - 1)"
    by (simp add: ilog2_def q l_def Let_def)
  show "2 powi (ilog2 x) \<le> \<bar>x\<bar>" using lo by (simp add: il)
  show "\<bar>x\<bar> < 2 powi (ilog2 x + 1)" using up by (auto simp: il)
qed

lemma ilog2_less:
  assumes "x \<noteq> 0" and "\<bar>x\<bar> < 2 powi e"
  shows "ilog2 x < e"
proof (rule ccontr)
  assume "\<not> ilog2 x < e"
  then have "(2::rat) powi e \<le> 2 powi (ilog2 x)" by (intro power_int_increasing) simp_all
  with ilog2_bounds(1)[OF assms(1)] assms(2) show False by simp
qed

lemma ilog2_ge:
  assumes "2 powi e \<le> \<bar>x\<bar>"
  shows "e \<le> ilog2 x"
proof (rule ccontr)
  assume "\<not> e \<le> ilog2 x"
  then have "(2::rat) powi (ilog2 x + 1) \<le> 2 powi e" by (intro power_int_increasing) simp_all
  moreover have "x \<noteq> 0"
  proof -
    have "0 < (2::rat) powi e" by simp
    with assms have "0 < \<bar>x\<bar>" by linarith
    then show ?thesis by simp
  qed
  ultimately show False using ilog2_bounds(2)[of x] assms by simp
qed

text \<open>
  \<open>strtod\<close> moves a value by at most half the spacing, keeps every multiple of the
  spacing, and gives the one multiple that is strictly within half the spacing.
  \<open>dtoa3\<close> does the same on the grid of the decimals of \<open>p\<close> places.
\<close>

lemma quantum_pos: "0 < quantum x"
  by (simp add: quantum_def)

lemma abs_scale:
  fixes a d q :: rat
  assumes "0 < q"
  shows "\<bar>a * q - d\<bar> = \<bar>a - d / q\<bar> * q"
proof -
  have "a * q - d = (a - d / q) * q" using assms by (simp add: field_simps)
  then show ?thesis using assms by (simp add: abs_mult abs_of_pos)
qed

lemma strtod_error: "\<bar>strtod d - d\<bar> \<le> quantum d / 2"
proof -
  have "\<bar>strtod d - d\<bar> = \<bar>of_int (round_half_even (d / quantum d)) - d / quantum d\<bar> * quantum d"
    unfolding strtod_def by (rule abs_scale[OF quantum_pos])
  also have "\<dots> \<le> 1 / 2 * quantum d"
    using quantum_pos[of d] round_half_even_error[of "d / quantum d"] by (intro mult_right_mono) simp_all
  finally show ?thesis by simp
qed

lemma strtod_fix: "d = of_int k * quantum d \<Longrightarrow> strtod d = d"
proof -
  assume d: "d = of_int k * quantum d"
  have "d / quantum d = of_int k" using quantum_pos[of d] d by (simp add: field_simps)
  then show ?thesis using d by (simp add: strtod_def round_half_even_of_int)
qed

lemma strtod_near:
  assumes "\<bar>of_int n * quantum d - d\<bar> < quantum d / 2"
  shows "strtod d = of_int n * quantum d"
proof -
  have "\<bar>of_int n - d / quantum d\<bar> * quantum d = \<bar>of_int n * quantum d - d\<bar>"
    by (rule abs_scale[OF quantum_pos, symmetric])
  with assms have "\<bar>of_int n - d / quantum d\<bar> * quantum d < 1 / 2 * quantum d" by simp
  then have "\<bar>of_int n - d / quantum d\<bar> < 1 / 2"
    using quantum_pos[of d] by (simp only: mult_less_cancel_right_pos)
  from round_half_even_unique[OF this] show ?thesis by (simp add: strtod_def)
qed

lemma ten_powi_pos: "0 < (10::rat) powi p"
  by simp

lemma dtoa3_error: "\<bar>dtoa3 x p - x\<bar> \<le> 1 / (2 * 10 powi p)"
proof -
  have "\<bar>dtoa3 x p - x\<bar> = \<bar>of_int (round_half_even (x * 10 powi p)) - x * 10 powi p\<bar> / 10 powi p"
    using ten_powi_pos[of p] by (simp add: dtoa3_def abs_divide[symmetric] field_simps abs_of_pos)
  also have "\<dots> \<le> (1 / 2) / 10 powi p"
    using ten_powi_pos[of p] round_half_even_error[of "x * 10 powi p"] by (intro divide_right_mono) simp_all
  finally show ?thesis by simp
qed

lemma dtoa3_near:
  assumes "\<bar>y - of_int D / 10 powi p\<bar> < 1 / (2 * 10 powi p)"
  shows "dtoa3 y p = of_int D / 10 powi p"
proof -
  have "\<bar>of_int D - y * 10 powi p\<bar> = \<bar>y - of_int D / 10 powi p\<bar> * 10 powi p"
    using ten_powi_pos[of p] by (simp add: abs_mult[symmetric] field_simps abs_of_pos abs_minus_commute)
  also have "\<dots> < 1 / (2 * 10 powi p) * 10 powi p"
    using assms ten_powi_pos[of p] by (simp only: mult_less_cancel_right_pos)
  finally have "\<bar>of_int D - y * 10 powi p\<bar> < 1 / 2" using ten_powi_pos[of p] by simp
  from round_half_even_unique[OF this] show ?thesis by (simp add: dtoa3_def)
qed


text \<open>
  Multiples of a power of two: a multiple of a larger power is a multiple of a smaller
  one, and a multiple below a larger power stays one step below it.
\<close>

lemma two_powi_split:
  assumes "j \<le> i"
  shows "(2::rat) powi i = of_int (2 ^ nat (i - j)) * 2 powi j"
proof -
  have "(2::rat) powi i = 2 powi ((i - j) + j)" by simp
  also have "\<dots> = 2 powi (i - j) * 2 powi j" by (rule power_int_add) simp
  also have "(2::rat) powi (i - j) = of_int (2 ^ nat (i - j))"
    using assms by (simp add: power_int_def)
  finally show ?thesis .
qed

lemma multiple_coarser:
  fixes x :: rat
  assumes "x = of_int m * 2 powi i" and "j \<le> i"
  shows "\<exists>n. x = of_int n * (2::rat) powi j"
proof -
  have "x = of_int (m * 2 ^ nat (i - j)) * 2 powi j"
    unfolding assms(1) by (subst two_powi_split[OF assms(2)]) simp
  then show ?thesis by blast
qed

lemma multiple_gap:
  fixes x :: rat
  assumes x: "x = of_int m * 2 powi i" and ie: "i \<le> e" and lt: "\<bar>x\<bar> < 2 powi e"
  shows "\<bar>x\<bar> \<le> 2 powi e - 2 powi i"
proof -
  define K :: int where "K = 2 ^ nat (e - i)"
  have e: "(2::rat) powi e = of_int K * 2 powi i"
    unfolding K_def by (rule two_powi_split[OF ie])
  have ax: "\<bar>x\<bar> = of_int \<bar>m\<bar> * 2 powi i"
    using x by (simp add: abs_mult)
  from lt have "of_int \<bar>m\<bar> * 2 powi i < of_int K * (2::rat) powi i"
    unfolding ax e .
  then have "(of_int \<bar>m\<bar> :: rat) < of_int K"
    by (simp only: mult_less_cancel_right_pos zero_less_power_int zero_less_numeral)
  then have "\<bar>m\<bar> \<le> K - 1" by simp
  then have "(of_int \<bar>m\<bar> :: rat) \<le> of_int (K - 1)" by (simp only: of_int_le_iff)
  then have "of_int \<bar>m\<bar> * 2 powi i \<le> of_int (K - 1) * (2::rat) powi i"
    by (intro mult_right_mono) simp_all
  then show ?thesis unfolding ax e by (simp add: algebra_simps)
qed

lemma double_multiple: "is_double x \<Longrightarrow> \<exists>m. x = of_int m * quantum x"
proof -
  assume "is_double x"
  then have "x = of_int (round_half_even (x / quantum x)) * quantum x"
    by (simp add: is_double_def strtod_def)
  then show ?thesis by blast
qed

text \<open>
  The round trip. Let \<open>d\<close> be a decimal of \<open>p\<close> places. Where the binary64 values are
  spaced more finely than these decimals, the value read from \<open>d\<close> is written back as
  \<open>d\<close>. Where they are spaced more coarsely and \<open>d\<close> was written from a binary64 value
  \<open>x\<close>, the value read from \<open>d\<close> is \<open>x\<close> again. So the value that \<open>double_round\<close> reads
  back is a fixed point of the two conversions.
\<close>

lemma round_trip_fine:
  assumes q: "quantum d < 1 / 10 powi p" and d: "d = of_int D / 10 powi p"
  shows "dtoa3 (strtod d) p = d"
proof -
  have "\<bar>strtod d - d\<bar> \<le> quantum d / 2" by (rule strtod_error)
  also have "\<dots> < (1 / 10 powi p) / 2" using q by simp
  finally have "\<bar>strtod d - d\<bar> < 1 / (2 * 10 powi p)" by simp
  then have "\<bar>strtod d - of_int D / 10 powi p\<bar> < 1 / (2 * 10 powi p)"
    using d by simp
  from dtoa3_near[OF this] show ?thesis using d by simp
qed

lemma round_trip_coarse:
  assumes dbl: "is_double x"
    and d: "d = dtoa3 x p"
    and d0: "d \<noteq> 0"
    and q: "1 / 10 powi p < quantum d"
  shows "strtod d = x"
proof -
  define ex where "ex = max (ilog2 x) (- 1022)"
  define ed where "ed = max (ilog2 d) (- 1022)"
  have qx: "quantum x = 2 powi (ex - 52)" by (simp add: quantum_def ex_def)
  have qd: "quantum d = 2 powi (ed - 52)" by (simp add: quantum_def ed_def)
  from double_multiple[OF dbl] obtain m where m: "x = of_int m * 2 powi (ex - 52)"
    unfolding qx by blast
  have "\<bar>d - x\<bar> \<le> 1 / (2 * 10 powi p)" unfolding d by (rule dtoa3_error)
  also have "\<dots> = (1 / 10 powi p) / 2" by simp
  also have "\<dots> < quantum d / 2" using q by simp
  finally have near: "\<bar>d - x\<bar> < quantum d / 2" .
  show ?thesis
  proof (cases "ed \<le> ex")
    case True
    then have "ed - 52 \<le> ex - 52" by simp
    from multiple_coarser[OF m this] obtain n where n: "x = of_int n * quantum d"
      unfolding qd by blast
    have "\<bar>of_int n * quantum d - d\<bar> < quantum d / 2"
      using near n by (simp add: abs_minus_commute)
    from strtod_near[OF this] n show ?thesis by simp
  next
    case False
    then have lt: "ex < ed" by simp
    have "- 1022 \<le> ex" by (simp add: ex_def)
    with lt have ed: "ed = ilog2 d" by (simp add: ed_def max_def split: if_splits)
    have dlow: "2 powi ed \<le> \<bar>d\<bar>" unfolding ed by (rule ilog2_bounds(1)[OF d0])
    have xup: "\<bar>x\<bar> < 2 powi (ex + 1)"
    proof (cases "x = 0")
      case True
      then show ?thesis by simp
    next
      case False
      have "\<bar>x\<bar> < 2 powi (ilog2 x + 1)" by (rule ilog2_bounds(2)[OF False])
      also have "\<dots> \<le> 2 powi (ex + 1)"
        by (intro power_int_increasing) (simp_all add: ex_def)
      finally show ?thesis .
    qed
    have "\<bar>x\<bar> \<le> 2 powi (ex + 1) - 2 powi (ex - 52)"
      by (rule multiple_gap[OF m _ xup]) simp
    also have "(2::rat) powi (ex + 1) = 2 ^ 53 * 2 powi (ex - 52)"
      using two_powi_split[of "ex - 52" "ex + 1"] by simp
    finally have "\<bar>x\<bar> \<le> (2 ^ 53 - 1) * 2 powi (ex - 52)" by (simp add: algebra_simps)
    also have "\<dots> \<le> (2 ^ 53 - 1) * 2 powi (ed - 53)"
      using lt by (intro mult_left_mono power_int_increasing) simp_all
    also have "\<dots> = 2 ^ 53 * 2 powi (ed - 53) - 2 powi (ed - 53)" by (simp add: algebra_simps)
    also have "2 ^ 53 * (2::rat) powi (ed - 53) = 2 powi ed"
      using two_powi_split[of "ed - 53" ed] by simp
    finally have xle: "\<bar>x\<bar> \<le> 2 powi ed - 2 powi (ed - 53)" .
    have half: "quantum d / 2 = 2 powi (ed - 53)"
    proof -
      have "(2::rat) powi (ed - 52) = 2 powi ((ed - 53) + 1)" by simp
      also have "\<dots> = 2 powi (ed - 53) * 2" by (subst power_int_add) simp_all
      finally show ?thesis by (simp add: qd)
    qed
    have "\<bar>d\<bar> - \<bar>x\<bar> \<le> \<bar>d - x\<bar>" by simp
    with near half have "\<bar>d\<bar> - \<bar>x\<bar> < 2 powi (ed - 53)" by simp
    with dlow xle have False by simp
    then show ?thesis ..
  qed
qed

lemma ten_powi_int:
  assumes "0 \<le> p"
  shows "(10::rat) powi p = of_int (10 ^ nat p)"
  using assms by (simp add: power_int_def)

lemma dtoa3_integer:
  assumes "0 \<le> p"
  shows "dtoa3 (of_int k) p = of_int k"
proof -
  have "(of_int k :: rat) * 10 powi p = of_int (k * 10 ^ nat p)"
    by (simp add: ten_powi_int[OF assms])
  then have "round_half_even (of_int k * 10 powi p) = k * 10 ^ nat p"
    by (simp only: round_half_even_of_int)
  then show ?thesis
    by (simp add: dtoa3_def ten_powi_int[OF assms])
qed

lemma strtod_zero: "strtod 0 = 0"
  by (simp add: strtod_def round_half_even_def)

lemma dtoa3_zero: "dtoa3 0 p = 0"
  by (simp add: dtoa3_def round_half_even_def)

lemma dtoa3_idem: "dtoa3 (dtoa3 x p) p = dtoa3 x p"
proof -
  have "dtoa3 x p * 10 powi p = of_int (round_half_even (x * 10 powi p))"
    by (simp add: dtoa3_def)
  then have "round_half_even (dtoa3 x p * 10 powi p) = round_half_even (x * 10 powi p)"
    by (simp only: round_half_even_of_int)
  then show ?thesis by (simp add: dtoa3_def)
qed

lemma double_round_trip:
  assumes dbl: "is_double x"
  shows "strtod (dtoa3 (strtod (dtoa3 x p)) p) = strtod (dtoa3 x p)"
proof -
  define d where "d = dtoa3 x p"
  define D where "D = round_half_even (x * 10 powi p)"
  have dD: "d = of_int D / 10 powi p" by (simp add: d_def D_def dtoa3_def)
  have dfix: "dtoa3 d p = d" unfolding d_def by (rule dtoa3_idem)
  consider "d = 0" | "d \<noteq> 0" "quantum d < 1 / 10 powi p" | "quantum d = 1 / 10 powi p"
    | "d \<noteq> 0" "1 / 10 powi p < quantum d"
    by fastforce
  then have "strtod (dtoa3 (strtod d) p) = strtod d"
  proof cases
    case 1
    then show ?thesis by (simp add: strtod_zero dtoa3_zero)
  next
    case 2
    from round_trip_fine[OF 2(2) dD] show ?thesis by simp
  next
    case 3
    have "d = of_int D * quantum d" using dD 3 by simp
    from strtod_fix[OF this] dfix show ?thesis by simp
  next
    case 4
    have "strtod d = x" by (rule round_trip_coarse[OF dbl d_def 4])
    then show ?thesis by (simp add: d_def[symmetric])
  qed
  then show ?thesis by (simp add: d_def)
qed

text \<open>
  From 0 digits on, rounding a binary64 value never overflows: a value that is not a
  whole number is below \<open>2\<^sup>5\<^sup>2\<close>, and a whole number rounds to itself.
\<close>

lemma double_not_whole_small:
  assumes dbl: "is_double x" and nw: "\<And>k. x \<noteq> of_int k"
  shows "\<bar>x\<bar> < 2 ^ 52"
proof (rule ccontr)
  assume "\<not> \<bar>x\<bar> < 2 ^ 52"
  then have "(2::rat) powi 52 \<le> \<bar>x\<bar>" by simp
  then have "52 \<le> ilog2 x" by (rule ilog2_ge)
  then have e: "0 \<le> max (ilog2 x) (- 1022) - 52" by simp
  from double_multiple[OF dbl] obtain m where "x = of_int m * quantum x" by blast
  also have "quantum x = of_int (2 ^ nat (max (ilog2 x) (- 1022) - 52))"
    using e by (simp add: quantum_def power_int_def)
  finally have "x = of_int (m * 2 ^ nat (max (ilog2 x) (- 1022) - 52))" by simp
  with nw show False by blast
qed

lemma double_round_bounded:
  assumes dbl: "is_double x" and p: "0 \<le> p"
  shows "\<bar>strtod (dtoa3 x p)\<bar> < 2 ^ 1024"
proof (cases "\<exists>k. x = of_int k")
  case True
  then obtain k where k: "x = of_int k" by blast
  have "dtoa3 x p = x" unfolding k by (rule dtoa3_integer[OF p])
  then show ?thesis using dbl by (simp add: is_double_def)
next
  case False
  then have small: "\<bar>x\<bar> < 2 ^ 52" by (intro double_not_whole_small[OF dbl]) blast
  define d where "d = dtoa3 x p"
  have "1 \<le> (10::rat) powi p" using p by (intro one_le_power_int) simp_all
  then have "1 / (2 * 10 powi p) \<le> (1 / 2 :: rat)" by (simp add: field_simps)
  with dtoa3_error[of x p] have "\<bar>d - x\<bar> \<le> 1 / 2" unfolding d_def by linarith
  with small have dlt: "\<bar>d\<bar> < 2 ^ 52 + 1" by linarith
  show ?thesis
  proof (cases "d = 0")
    case True
    then show ?thesis by (simp add: d_def[symmetric] strtod_zero)
  next
    case False
    have "\<bar>d\<bar> < 2 powi 53" using dlt by simp
    from ilog2_less[OF False this] have "max (ilog2 d) (- 1022) - 52 \<le> 0" by simp
    then have "quantum d \<le> 2 powi 0"
      unfolding quantum_def by (intro power_int_increasing) simp_all
    then have "quantum d \<le> 1" by simp
    with strtod_error[of d] have "\<bar>strtod d - d\<bar> \<le> 1 / 2" by linarith
    with dlt have "\<bar>strtod d\<bar> < 2 ^ 52 + 2" by linarith
    also have "\<dots> < (2::rat) ^ 1024" by simp
    finally show ?thesis by (simp add: d_def)
  qed
qed

text \<open>
  \<open>round\<close> of a well-formed number to a precision that is not negative raises nothing,
  and its result rounds to itself; the result is a NaN only for a NaN.
\<close>

lemma double_round_idem:
  assumes "is_double x" and "0 \<le> p"
  shows "double_round x p = Inr (strtod (dtoa3 x p))"
    and "double_round (strtod (dtoa3 x p)) p = Inr (strtod (dtoa3 x p))"
  using double_round_bounded[OF assms] double_round_trip[OF assms(1), of p]
  by (simp_all add: double_round_def Let_def)

lemma py_round_idem:
  assumes p: "0 \<le> p" and wf: "is_number x"
  shows "\<exists>y. py_round x p = Inr y \<and> py_round y p = Inr y \<and> (y = PyFloat NaN \<longleftrightarrow> x = PyFloat NaN)"
proof (cases x)
  case (PyInt i)
  then show ?thesis using p by (simp add: py_round_def int_round_def)
next
  case (PyFloat f)
  show ?thesis
  proof (cases f)
    case (Finite r)
    with wf PyFloat have dbl: "is_double r" by (simp add: is_number_def)
    show ?thesis
    proof (cases "323 < p")
      case True
      then show ?thesis using PyFloat Finite by (simp add: py_round_def float_round_def)
    next
      case False
      then show ?thesis
        using PyFloat Finite p double_round_idem[OF dbl p]
        by (simp add: py_round_def float_round_def)
    qed
  qed (use PyFloat in \<open>simp_all add: py_round_def float_round_def\<close>)
qed

text \<open>Where every \<open>round\<close> returns, \<open>recursive_round\<close> returns the coordinates of the results.\<close>

lemma first_raised_Inr: "first_raised (map (\<lambda>x. Inr (f x)) xs) = Inr (map f xs)"
  by (induction xs) simp_all

lemma recursive_round_py_returns:
  assumes "\<forall>x \<in> set_coords val. py_round x p = Inr (g x)"
  shows "recursive_round_py val p = Inr (map_coords g val)"
proof -
  have "collect (recursive_round round_outcome (map_coords Inr val) p) = Inr (map_coords g val)"
    using assms
  proof (induction val)
    case (Num x)
    then show ?case by (simp add: round_outcome_def)
  next
    case (Seq parts)
    have part: "collect (recursive_round round_outcome (map_coords Inr part) p) = Inr (map_coords g part)"
      if "part \<in> set parts" for part
      using Seq that by auto
    have E: "map collect (map (\<lambda>part. recursive_round round_outcome part p) (map (map_coords Inr) parts))
            = map (\<lambda>part. Inr (map_coords g part)) parts"
      using part by (simp add: comp_def)
    have "collect (recursive_round round_outcome (map_coords Inr (Seq parts)) p)
            = map_sum id Seq (first_raised (map (\<lambda>part. Inr (map_coords g part)) parts))"
      unfolding E[symmetric] by simp
    then show ?case by (simp add: first_raised_Inr)
  qed
  then show ?thesis by (simp add: recursive_round_py_def)
qed

text \<open>Coordinates are equal to themselves, under \<open>==\<close>, exactly when no NaN is among their numbers.\<close>

lemma number_eq_same: "number_eq a a \<longleftrightarrow> a \<noteq> PyFloat NaN"
  by (simp add: number_eq_def split: number.splits pyfloat.splits)

lemma py_eq_same: "py_eq r r \<longleftrightarrow> PyFloat NaN \<notin> set_coords r"
  by (induction r) (auto simp: number_eq_same list_all2_same)

text \<open>
  Claim C10, as stated, fails for a float that is a NaN. Rounding the list of a NaN and
  1.5 to one decimal returns a NaN and 1.5; rounding that list again returns a NaN and 1.5
  again; and the second result is not equal, under \<open>==\<close>, to the first, since a NaN is
  not equal to a NaN.
\<close>

theorem recursive_round_nan_counterexample:
  "recursive_round_py (Seq [Num (PyFloat NaN), Num (PyFloat (Finite (3 / 2)))]) 1
     = Inr (Seq [Num (PyFloat NaN), Num (PyFloat (Finite (3 / 2)))])
   \<and> \<not> py_eq (Seq [Num (PyFloat NaN), Num (PyFloat (Finite (3 / 2)))])
              (Seq [Num (PyFloat NaN), Num (PyFloat (Finite (3 / 2)))])"
  by code_simp

text \<open>
  Claim C10, amended. For every nested list of well-formed ints and floats and every
  precision that is not negative, \<open>recursive_round\<close> raises nothing and returns
  coordinates of exactly the nesting and lengths of its argument; rounding the result
  again returns the same coordinates, number for number; and the two results are equal
  under \<open>==\<close> exactly when there is no NaN among the numbers of the argument.
\<close>

theorem recursive_round_shape_idempotent:
  assumes "0 \<le> p" and "\<forall>x \<in> set_coords val. is_number x"
  shows "\<exists>r. recursive_round_py val p = Inr r
            \<and> shape r = shape val
            \<and> recursive_round_py r p = Inr r
            \<and> (py_eq r r \<longleftrightarrow> PyFloat NaN \<notin> set_coords val)"
proof -
  define g where "g x = (case py_round x p of Inr y \<Rightarrow> y | Inl err \<Rightarrow> x)" for x
  have leaf: "py_round x p = Inr (g x) \<and> py_round (g x) p = Inr (g x)
                \<and> (g x = PyFloat NaN \<longleftrightarrow> x = PyFloat NaN)"
    if "x \<in> set_coords val" for x
  proof -
    from that assms(2) have "is_number x" by blast
    from py_round_idem[OF assms(1) this] show ?thesis by (auto simp: g_def)
  qed
  define r where "r = map_coords g val"
  have once: "recursive_round_py val p = Inr r"
    unfolding r_def by (rule recursive_round_py_returns) (use leaf in blast)
  have "\<forall>y \<in> set_coords r. py_round y p = Inr y"
    using leaf by (auto simp: r_def coords.set_map)
  then have "recursive_round_py r p = Inr (map_coords (\<lambda>y. y) r)"
    by (intro recursive_round_py_returns) simp
  then have twice: "recursive_round_py r p = Inr r"
    by (simp add: coords.map_ident)
  have sh: "shape r = shape val"
    by (simp add: r_def shape_def coords.map_comp comp_def)
  have "PyFloat NaN \<in> set_coords r \<longleftrightarrow> PyFloat NaN \<in> set_coords val"
  proof
    assume "PyFloat NaN \<in> set_coords r"
    then obtain x where x: "x \<in> set_coords val" and gx: "g x = PyFloat NaN"
      by (auto simp: r_def coords.set_map)
    from leaf[OF x] gx have "x = PyFloat NaN" by blast
    with x show "PyFloat NaN \<in> set_coords val" by simp
  next
    assume n: "PyFloat NaN \<in> set_coords val"
    from leaf[OF n] have "g (PyFloat NaN) = PyFloat NaN" by blast
    with n show "PyFloat NaN \<in> set_coords r"
      by (force simp: r_def coords.set_map)
  qed
  then have eq: "py_eq r r \<longleftrightarrow> PyFloat NaN \<notin> set_coords val"
    by (simp add: py_eq_same)
  from once sh twice eq show ?thesis by blast
qed

text \<open>
  A polygon-like nesting of the floats 0.125 and 3.14159, the int 2 and an infinity,
  rounded to two decimals: the floats 0.12 and 3.14, the int 2 and the infinity.
\<close>

theorem recursive_round_shape_idempotent_witness:
  "is_double (1 / 8) \<and> is_double (3537115888337719 / 1125899906842624)
   \<and> recursive_round_py (Seq [Seq [Num (PyFloat (Finite (1 / 8))),
                                   Num (PyFloat (Finite (3537115888337719 / 1125899906842624)))],
                              Seq [Num (PyInt 2), Num (PyFloat PosInf)]]) 2
       = Inr (Seq [Seq [Num (PyFloat (Finite (1080863910568919 / 9007199254740992))),
                        Num (PyFloat (Finite (7070651414971679 / 2251799813685248)))],
                   Seq [Num (PyInt 2), Num (PyFloat PosInf)]])
   \<and> recursive_round_py (Seq [Seq [Num (PyFloat (Finite (1080863910568919 / 9007199254740992))),
                                   Num (PyFloat (Finite (7070651414971679 / 2251799813685248)))],
                              Seq [Num (PyInt 2), Num (PyFloat PosInf)]]) 2
       = Inr (Seq [Seq [Num (PyFloat (Finite (1080863910568919 / 9007199254740992))),
                        Num (PyFloat (Finite (7070651414971679 / 2251799813685248)))],
                   Seq [Num (PyInt 2), Num (PyFloat PosInf)]])"
proof -
  let ?val = "Seq [Seq [Num (PyFloat (Finite (1 / 8))),
                        Num (PyFloat (Finite (3537115888337719 / 1125899906842624)))],
                   Seq [Num (PyInt 2), Num (PyFloat PosInf)]]"
  let ?res = "Seq [Seq [Num (PyFloat (Finite (1080863910568919 / 9007199254740992))),
                        Num (PyFloat (Finite (7070651414971679 / 2251799813685248)))],
                   Seq [Num (PyInt 2), Num (PyFloat PosInf)]]"
  have p: "(0::int) \<le> 2" by simp
  have d1: "is_double (1 / 8)" by code_simp
  have d2: "is_double (3537115888337719 / 1125899906842624)" by code_simp
  have wf: "\<forall>x \<in> set_coords ?val. is_number x"
    by (simp add: is_number_def d1 d2)
  have once: "recursive_round_py ?val 2 = Inr ?res" by code_simp
  from recursive_round_shape_idempotent[OF p wf] obtain r
    where "recursive_round_py ?val 2 = Inr r" and "recursive_round_py r 2 = Inr r"
    by blast
  with once have twice: "recursive_round_py ?res 2 = Inr ?res" by simp
  from d1 d2 once twice show ?thesis by (intro conjI)
qed

text \<open>
  Claim C8. Whenever the native transformation yields a geometry with coordinates and
  the precision is not negative, \<open>_transform_geom\<close> returns that geometry with its
  coordinates passed through \<open>recursive_round\<close>: the nesting is the one of the
  transformed coordinates, and the number at every position is the transformed number
  at that position, rounded to the precision. In particular, where the native
  transformation gives the point back (a CRS to itself), the result is the point rounded.
\<close>

theorem transform_geom_rounds_coordinates:
  assumes "0 \<le> precision"
    and "transform_native E crs1 crs2 geom cutting offset = Inr g"
    and "coordinates g = Some c"
  shows "transform_geom E rnd crs1 crs2 geom cutting offset precision
           = Inr (g\<lparr>coordinates := Some (recursive_round rnd c precision)\<rparr>)
       \<and> shape (recursive_round rnd c precision) = shape c
       \<and> (\<forall>path. component path (recursive_round rnd c precision)
                    = map_option (\<lambda>v. rnd v precision) (component path c))"
  using assms
  by (simp add: transform_geom_def shape_recursive_round component_recursive_round)

text \<open>
  A point transformed from a CRS to itself with precision 2: the origin comes back as
  it is, and the point (0.125, 3.14159) comes back as (0.12, 3.14).
\<close>

theorem transform_geom_rounds_coordinates_witness:
  "transform_geom example_ogr round_decimal ''EPSG:4326'' ''EPSG:4326''
     \<lparr>geom_type = ''Point'', coordinates = Some (Seq [Num 0, Num 0])\<rparr> False ''10.0'' 2
     = Inr \<lparr>geom_type = ''Point'', coordinates = Some (Seq [Num 0, Num 0])\<rparr>
   \<and> transform_geom example_ogr round_decimal ''EPSG:4326'' ''EPSG:4326''
     \<lparr>geom_type = ''Point'', coordinates = Some (Seq [Num (1 / 8), Num (314159 / 100000)])\<rparr>
     True ''10.0'' 2
     = Inr \<lparr>geom_type = ''Point'', coordinates = Some (Seq [Num (3 / 25), Num (157 / 50)])\<rparr>"
proof -
  have p: "(0::int) \<le> 2" by simp
  have n: "transform_native example_ogr ''EPSG:4326'' ''EPSG:4326''
             \<lparr>geom_type = ''Point'', coordinates = Some c\<rparr> cutting ''10.0''
           = Inr \<lparr>geom_type = ''Point'', coordinates = Some c\<rparr>" for c cutting
    by (simp add: transform_native_def example_ogr_def)
  have co: "coordinates \<lparr>geom_type = ''Point'', coordinates = Some c\<rparr> = Some c" for c :: "rat coords"
    by simp
  have r0: "recursive_round round_decimal (Seq [Num 0, Num 0]) 2 = Seq [Num 0, Num 0]"
    by code_simp
  have r1: "recursive_round round_decimal (Seq [Num (1 / 8), Num (314159 / 100000)]) 2
              = Seq [Num (3 / 25), Num (157 / 50)]"
    by code_simp
  from transform_geom_rounds_coordinates[OF p n[of "Seq [Num 0, Num 0]" False] co,
          where rnd = round_decimal]
  have A: "transform_geom example_ogr round_decimal ''EPSG:4326'' ''EPSG:4326''
     \<lparr>geom_type = ''Point'', coordinates = Some (Seq [Num 0, Num 0])\<rparr> False ''10.0'' 2
     = Inr \<lparr>geom_type = ''Point'', coordinates = Some (Seq [Num 0, Num 0])\<rparr>"
    unfolding r0 by simp
  from transform_geom_rounds_coordinates[OF p n[of "Seq [Num (1 / 8), Num (314159 / 100000)]" True] co,
          where rnd = round_decimal]
  have B: "transform_geom example_ogr round_decimal ''EPSG:4326'' ''EPSG:4326''
     \<lparr>geom_type = ''Point'', coordinates = Some (Seq [Num (1 / 8), Num (314159 / 100000)])\<rparr>
     True ''10.0'' 2
     = Inr \<lparr>geom_type = ''Point'', coordinates = Some (Seq [Num (3 / 25), Num (157 / 50)])\<rparr>"
    unfolding r1 by simp
  from A B show ?thesis by (intro conjI)
qed

section \<open>Properties of the default transform estimator\<close>

text \<open>
  Claim C9. Let the bounds be well formed, the destination CRS resolve and the temporary
  raster open. If the transformer is created without error and the extent suggestion
  reports an application-defined error whose text contains \<open>Reprojection failed\<close>, the call
  does not raise: it logs the condition and returns the geotransform, pixel count and
  line count that the suggestion step has written. An application-defined error without
  that text is raised again as it is, from the suggestion step and from the creation of
  the transformer alike.
\<close>

theorem calculate_default_transform_reprojection_failed:
  assumes "bounds_transform E width height left bottom right top' = Inr transform"
    and "est_osr_from_crs E crs2 = Inr wkt"
    and "InMemoryRaster E width height transform gcps crs1 = Inr temp"
    and "GDALCreateGenImgProjTransformer E temp wkt = (h, raised1)"
    and "GDALSuggestedWarpOutput2 E temp h = ((geotransform, npixels, nlines), raised2)"
  shows "(raised1 = None \<and> raised2 = Some (CPLE_AppDefinedError errmsg)
            \<and> sublist ''Reprojection failed'' errmsg \<longrightarrow>
          calculate_default_transform E crs1 crs2 width height left bottom right top' gcps debug_log
            = (Inr (from_gdal geotransform, npixels, nlines),
               debug_log @ [''Encountered points outside of valid dst crs region'']))
       \<and> (raised1 = None \<and> raised2 = Some (CPLE_AppDefinedError errmsg)
            \<and> \<not> sublist ''Reprojection failed'' errmsg \<longrightarrow>
          calculate_default_transform E crs1 crs2 width height left bottom right top' gcps debug_log
            = (Inl (CPLE_AppDefinedError errmsg), debug_log))
       \<and> (raised1 = Some (CPLE_AppDefinedError errmsg)
            \<and> \<not> sublist ''Reprojection failed'' errmsg \<longrightarrow>
          calculate_default_transform E crs1 crs2 width height left bottom right top' gcps debug_log
            = (Inl (CPLE_AppDefinedError errmsg), debug_log))"
  using assms by (simp add: calculate_default_transform_def suggest_def)

text \<open>
  The example engine with the native library's message for the condition, with another
  application-defined message from the suggestion step, and with one from the creation
  of the transformer.
\<close>

theorem calculate_default_transform_reprojection_failed_witness:
  "calculate_default_transform
      (example_estimator
         ''Reprojection failed, err = -14, further errors will be suppressed on the transform object.'')
      ''EPSG:4326'' ''EPSG:3857'' 720 360 (Some (- 180)) (Some (- 90)) (Some 180) (Some 90) [] []
    = (Inr (Affine (1 / 2) 0 (- 180) 0 (- 1 / 2) 90, 720, 360),
       [''Encountered points outside of valid dst crs region''])
   \<and> calculate_default_transform
      (example_estimator ''Unable to compute a transformation between pixel/line and georeferenced coordinates'')
      ''EPSG:4326'' ''EPSG:3857'' 720 360 (Some (- 180)) (Some (- 90)) (Some 180) (Some 90) [] []
    = (Inl (CPLE_AppDefinedError
             ''Unable to compute a transformation between pixel/line and georeferenced coordinates''), [])
   \<and> calculate_default_transform
      ((example_estimator [])\<lparr>GDALCreateGenImgProjTransformer :=
          (\<lambda>ds wkt. (None, Some (CPLE_AppDefinedError ''No PROJ.4 translation for source SRS'')))\<rparr>)
      ''EPSG:4326'' ''EPSG:3857'' 720 360 (Some (- 180)) (Some (- 90)) (Some 180) (Some 90) [] []
    = (Inl (CPLE_AppDefinedError ''No PROJ.4 translation for source SRS''), [])"
proof -
  let ?m1 = "''Reprojection failed, err = -14, further errors will be suppressed on the transform object.''"
  let ?m2 = "''Unable to compute a transformation between pixel/line and georeferenced coordinates''"
  have b: "bounds_transform (example_estimator m) 720 360 (Some (- 180)) (Some (- 90)) (Some 180) (Some 90)
             = Inr (Some [- 180, 1 / 2, 0, 90, 0, - 1 / 2])" for m
    by (simp add: bounds_transform_def example_estimator_def)
  have o: "est_osr_from_crs (example_estimator m) ''EPSG:3857'' = Inr ''EPSG:3857''" for m
    by (simp add: example_estimator_def)
  have r: "InMemoryRaster (example_estimator m) 720 360 (Some [- 180, 1 / 2, 0, 90, 0, - 1 / 2]) [] ''EPSG:4326''
             = Inr 1" for m
    by (simp add: example_estimator_def)
  have c: "GDALCreateGenImgProjTransformer (example_estimator m) 1 ''EPSG:3857'' = (Some 5, None)" for m
    by (simp add: example_estimator_def)
  have s: "GDALSuggestedWarpOutput2 (example_estimator m) 1 (Some 5)
             = (((- 180, 1 / 2, 0, 90, 0, - 1 / 2), 720, 360), Some (CPLE_AppDefinedError m))" for m
    by (simp add: example_estimator_def)
  have in1: "sublist ''Reprojection failed'' ?m1" by code_simp
  have in2: "\<not> sublist ''Reprojection failed'' ?m2" by code_simp
  from calculate_default_transform_reprojection_failed[OF b o r c s, where errmsg = ?m1 and debug_log = "[]"] in1
  have A: "calculate_default_transform (example_estimator ?m1)
      ''EPSG:4326'' ''EPSG:3857'' 720 360 (Some (- 180)) (Some (- 90)) (Some 180) (Some 90) [] []
    = (Inr (Affine (1 / 2) 0 (- 180) 0 (- 1 / 2) 90, 720, 360),
       [''Encountered points outside of valid dst crs region''])"
    by (simp add: from_gdal_def)
  from calculate_default_transform_reprojection_failed[OF b o r c s, where errmsg = ?m2 and debug_log = "[]"] in2
  have B: "calculate_default_transform (example_estimator ?m2)
      ''EPSG:4326'' ''EPSG:3857'' 720 360 (Some (- 180)) (Some (- 90)) (Some 180) (Some 90) [] []
    = (Inl (CPLE_AppDefinedError ?m2), [])"
    by simp
  let ?E3 = "(example_estimator [])\<lparr>GDALCreateGenImgProjTransformer :=
          (\<lambda>ds wkt. (None, Some (CPLE_AppDefinedError ''No PROJ.4 translation for source SRS'')))\<rparr>"
  have b3: "bounds_transform ?E3 720 360 (Some (- 180)) (Some (- 90)) (Some 180) (Some 90)
             = Inr (Some [- 180, 1 / 2, 0, 90, 0, - 1 / 2])"
    by (simp add: bounds_transform_def example_estimator_def)
  have o3: "est_osr_from_crs ?E3 ''EPSG:3857'' = Inr ''EPSG:3857''"
    by (simp add: example_estimator_def)
  have r3: "InMemoryRaster ?E3 720 360 (Some [- 180, 1 / 2, 0, 90, 0, - 1 / 2]) [] ''EPSG:4326'' = Inr 1"
    by (simp add: example_estimator_def)
  have c3: "GDALCreateGenImgProjTransformer ?E3 1 ''EPSG:3857''
             = (None, Some (CPLE_AppDefinedError ''No PROJ.4 translation for source SRS''))"
    by simp
  have s3: "GDALSuggestedWarpOutput2 ?E3 1 None
             = (((- 180, 1 / 2, 0, 90, 0, - 1 / 2), 720, 360), Some (CPLE_AppDefinedError []))"
    by (simp add: example_estimator_def)
  have in3: "\<not> sublist ''Reprojection failed'' ''No PROJ.4 translation for source SRS''" by code_simp
  from calculate_default_transform_reprojection_failed[OF b3 o3 r3 c3 s3,
         where errmsg = "''No PROJ.4 translation for source SRS''" and debug_log = "[]"] in3
  have C: "calculate_default_transform ?E3
      ''EPSG:4326'' ''EPSG:3857'' 720 360 (Some (- 180)) (Some (- 90)) (Some 180) (Some 90) [] []
    = (Inl (CPLE_AppDefinedError ''No PROJ.4 translation for source SRS''), [])"
    by simp
  from A B C show ?thesis by (intro conjI)
qed

section \<open>Properties of the warp orchestrator\<close>

text \<open>
  Nothing before the nodata values are settled initialises or runs a warp, and the
  resolved values are the given or inherited ones.
\<close>

lemma initialized_append: "initialized (xs @ ys) = initialized xs @ initialized ys"
  by (simp add: initialized_def)

lemma warp_executed_append: "warp_executed (xs @ ys) = (warp_executed xs \<or> warp_executed ys)"
  by (simp add: warp_executed_def list_ex_iff) blast

lemma resolve_source_ok:
  assumes "resolve_source E a = (Inr src, ev)"
  shows "src_nodata_resolved src = spec_src_nodata a \<and> initialized ev = [] \<and> \<not> warp_executed ev"
  using assms
  by (auto simp: resolve_source_def spec_src_nodata_def initialized_def warp_executed_def
        Let_def split: raster.splits if_splits option.splits sum.splits)

lemma resolve_destination_ok:
  assumes "resolve_destination E a src = (Inr dst, ev)"
  shows "dst_nodata_resolved dst = dst_nodata_in_force a \<and> initialized ev = [] \<and> \<not> warp_executed ev"
  using assms
  by (auto simp: resolve_destination_def dst_nodata_in_force_def initialized_def warp_executed_def
        Let_def split: raster.splits if_splits option.splits sum.splits)

lemma create_transformer_ok:
  assumes "create_transformer E a s d = (Inr r, ev)"
  shows "initialized ev = [] \<and> \<not> warp_executed ev"
  using assms
  by (auto simp: create_transformer_def initialized_def warp_executed_def
        Let_def split: option.splits)

lemma prepare_ok:
  assumes "prepare E a = (Inr (src, dst, h, defaults), ev)"
  shows "src_nodata_resolved src = spec_src_nodata a \<and> dst_nodata_resolved dst = dst_nodata_in_force a
         \<and> initialized ev = [] \<and> \<not> warp_executed ev"
proof -
  obtain r1 ev1 where s1: "resolve_source E a = (r1, ev1)" by (cases "resolve_source E a")
  with assms obtain src' where r1: "r1 = Inr src'" by (cases r1) (auto simp: prepare_def)
  obtain r2 ev2 where s2: "resolve_destination E a src' = (r2, ev2)" by (cases "resolve_destination E a src'")
  with assms s1 r1 obtain dst' where r2: "r2 = Inr dst'" by (cases r2) (auto simp: prepare_def)
  obtain r3 ev3 where s3: "create_transformer E a (src_dataset src') (dst_dataset dst') = (r3, ev3)"
    by (cases "create_transformer E a (src_dataset src') (dst_dataset dst')")
  with assms s1 r1 s2 r2 obtain t where r3: "r3 = Inr t" by (cases r3) (auto simp: prepare_def)
  from assms s1 r1 s2 r2 s3 r3 have eq: "src = src'" "dst = dst'" "ev = ev1 @ ev2 @ ev3"
    by (auto simp: prepare_def split: prod.splits)
  from resolve_source_ok[OF s1[unfolded r1]] resolve_destination_ok[OF s2[unfolded r2]]
       create_transformer_ok[OF s3[unfolded r3]] eq
  show ?thesis by (simp add: initialized_append warp_executed_append)
qed


text \<open>The execution initialises the warper once, with the options built for it.\<close>

lemma execute_warp_initialized:
  "initialized (snd (execute_warp E a src dst h defaults src_nd dst_nd))
     = (if length (dst_bidx dst) < src_count src then []
        else [warp_options_of a src dst h defaults src_nd dst_nd])"
  by (simp add: execute_warp_def initialized_def release_def Let_def split: option.splits)

lemma warp_options_of_dst_nodata:
  "padfDstNoDataReal (warp_options_of a src dst h defaults src_nd dst_nd)
     = replicate (src_count src) dst_nd"
  by (simp add: warp_options_of_def Let_def)

lemma initialized_release: "initialized release = []"
  by (simp add: initialized_def release_def)

lemma warp_executed_release: "\<not> warp_executed release"
  by (simp add: warp_executed_def release_def)

text \<open>No step before the nodata values are settled runs a warp, whether it succeeds or not.\<close>

lemma resolve_source_quiet: "\<not> warp_executed (snd (resolve_source E a))"
  by (auto simp: resolve_source_def warp_executed_def Let_def
        split: raster.splits option.splits sum.splits)

lemma resolve_destination_quiet: "\<not> warp_executed (snd (resolve_destination E a src))"
  by (auto simp: resolve_destination_def warp_executed_def Let_def
        split: raster.splits option.splits sum.splits)

lemma create_transformer_quiet: "\<not> warp_executed (snd (create_transformer E a s d))"
  by (auto simp: create_transformer_def warp_executed_def release_def Let_def split: option.splits)

lemma prepare_quiet: "\<not> warp_executed (snd (prepare E a))"
proof -
  obtain r1 ev1 where s1: "resolve_source E a = (r1, ev1)" by (cases "resolve_source E a")
  have q1: "\<not> warp_executed ev1" using resolve_source_quiet[of E a] s1 by simp
  show ?thesis
  proof (cases r1)
    case (Inl err)
    with s1 q1 show ?thesis by (simp add: prepare_def)
  next
    case (Inr src)
    obtain r2 ev2 where s2: "resolve_destination E a src = (r2, ev2)"
      by (cases "resolve_destination E a src")
    have q2: "\<not> warp_executed ev2" using resolve_destination_quiet[of E a src] s2 by simp
    show ?thesis
    proof (cases r2)
      case (Inl err)
      with s1 \<open>r1 = Inr src\<close> s2 q1 q2 show ?thesis
        by (simp add: prepare_def warp_executed_append)
    next
      case (Inr dst)
      obtain r3 ev3 where s3: "create_transformer E a (src_dataset src) (dst_dataset dst) = (r3, ev3)"
        by (cases "create_transformer E a (src_dataset src) (dst_dataset dst)")
      have q3: "\<not> warp_executed ev3"
        using create_transformer_quiet[of E a "src_dataset src" "dst_dataset dst"] s3 by simp
      from s1 \<open>r1 = Inr src\<close> s2 Inr s3 q1 q2 q3 show ?thesis
        by (cases r3) (auto simp: prepare_def warp_executed_append)
    qed
  qed
qed

text \<open>
  Whatever happens before, a call with a destination nodata value in force and no
  resolvable source nodata value never returns normally; and a call with a nodata value
  out of range never returns normally and never runs a warp.
\<close>

lemma reproject_fails_without_source_nodata:
  assumes "spec_src_nodata a = None" and "dst_nodata_in_force a \<noteq> None"
  shows "\<exists>err. fst (reproject E a) = Inl err"
proof -
  obtain p ev where pe: "prepare E a = (p, ev)" by (cases "prepare E a")
  show ?thesis
  proof (cases p)
    case (Inl err)
    with pe show ?thesis by (simp add: reproject_def)
  next
    case (Inr ctx)
    obtain src dst h defaults where ctx: "ctx = (src, dst, h, defaults)" by (cases ctx)
    from prepare_ok[OF pe[unfolded Inr ctx]] assms
    have "src_nodata_resolved src = None" "dst_nodata_resolved dst \<noteq> None" by simp_all
    with pe Inr ctx show ?thesis
      by (simp add: reproject_def nodata_policy_def)
  qed
qed

lemma reproject_runs_no_warp_out_of_range:
  assumes "(\<exists>v. spec_src_nodata a = Some v \<and> \<not> in_dtype_range E v (dtype_of (source a)))
           \<or> \<not> in_dtype_range E (effective_dst_nodata a) (dtype_of (destination a))"
  shows "\<exists>err. fst (reproject E a) = Inl err \<and> \<not> warp_executed (snd (reproject E a))"
proof -
  obtain p ev where pe: "prepare E a = (p, ev)" by (cases "prepare E a")
  have q: "\<not> warp_executed ev" using prepare_quiet[of E a] pe by simp
  show ?thesis
  proof (cases p)
    case (Inl err)
    with pe q show ?thesis by (simp add: reproject_def)
  next
    case (Inr ctx)
    obtain src dst h defaults where ctx: "ctx = (src, dst, h, defaults)" by (cases ctx)
    from prepare_ok[OF pe[unfolded Inr ctx]]
    have s: "src_nodata_resolved src = spec_src_nodata a"
      and d: "dst_nodata_resolved dst = dst_nodata_in_force a" by simp_all
    have "\<exists>err. nodata_policy E a (spec_src_nodata a) (dst_nodata_in_force a) = Inl err"
      using assms
      by (cases "spec_src_nodata a"; cases "dst_nodata_in_force a")
         (auto simp: nodata_policy_def effective_dst_nodata_def Let_def)
    then obtain err where
      "nodata_policy E a (spec_src_nodata a) (dst_nodata_in_force a) = Inl err" ..
    with pe Inr ctx s d q show ?thesis
      by (simp add: reproject_def warp_executed_append warp_executed_release)
  qed
qed

text \<open>
  Claim C1, amended. For a call that reaches the nodata step: if a destination nodata
  value is in force (given, or else inherited from a masked destination buffer's fill
  value or from the destination handle) and no source nodata value is resolvable
  (given, or inherited from a masked source buffer or the source handle), the call
  raises the \<open>ValueError\<close> of line 424, the specification's \<open>ConfigurationError\<close>,
  after releasing the transformer and the options. Otherwise the destination value
  that goes into the warp options, once per band, is the value in force if there is one,
  else the source value if one is resolvable, else 0; and the warper is initialised with
  it whenever both values are in range and the destination has enough band indexes.
\<close>

theorem reproject_nodata_resolution:
  assumes "prepare E a = (Inr (src, dst, h, defaults), ev)"
  shows "(spec_src_nodata a = None \<and> dst_nodata_in_force a \<noteq> None \<longrightarrow>
            reproject E a =
              (Inl (ValueError ''src_nodata must be provided because dst_nodata is not None''),
               ev @ release))
       \<and> (\<forall>opts \<in> set (initialized (snd (reproject E a))).
            padfDstNoDataReal opts = replicate (src_count src) (effective_dst_nodata a))
       \<and> (\<not> (spec_src_nodata a = None \<and> dst_nodata_in_force a \<noteq> None)
          \<and> (\<forall>v. spec_src_nodata a = Some v \<longrightarrow> in_dtype_range E v (dtype_of (source a)))
          \<and> in_dtype_range E (effective_dst_nodata a) (dtype_of (destination a))
          \<and> src_count src \<le> length (dst_bidx dst) \<longrightarrow>
            initialized (snd (reproject E a)) \<noteq> [])"
proof -
  from prepare_ok[OF assms]
  have s: "src_nodata_resolved src = spec_src_nodata a"
    and d: "dst_nodata_resolved dst = dst_nodata_in_force a"
    and q: "initialized ev = []"
    by simp_all
  show ?thesis
  proof (cases "nodata_policy E a (spec_src_nodata a) (dst_nodata_in_force a)")
    case (Inl err)
    then have r: "reproject E a = (Inl err, ev @ release)"
      using assms s d by (simp add: reproject_def)
    have none: "initialized (snd (reproject E a)) = []"
      using r q by (simp add: initialized_append initialized_release)
    from Inl have c1: "spec_src_nodata a = None \<and> dst_nodata_in_force a \<noteq> None \<longrightarrow>
        err = ValueError ''src_nodata must be provided because dst_nodata is not None''"
      by (auto simp: nodata_policy_def)
    from Inl have c3: "\<not> (\<not> (spec_src_nodata a = None \<and> dst_nodata_in_force a \<noteq> None)
          \<and> (\<forall>v. spec_src_nodata a = Some v \<longrightarrow> in_dtype_range E v (dtype_of (source a)))
          \<and> in_dtype_range E (effective_dst_nodata a) (dtype_of (destination a)))"
      by (auto simp: nodata_policy_def effective_dst_nodata_def Let_def
            split: if_splits option.splits)
    from r none c1 c3 show ?thesis by auto
  next
    case (Inr p)
    obtain src_nd dst_nd where p: "p = (src_nd, dst_nd)" by (cases p)
    from Inr p have ok: "\<not> (spec_src_nodata a = None \<and> dst_nodata_in_force a \<noteq> None)"
      and eff: "dst_nd = effective_dst_nodata a"
      by (auto simp: nodata_policy_def effective_dst_nodata_def Let_def
            split: if_splits option.splits)
    have r: "snd (reproject E a) = ev @ snd (execute_warp E a src dst h defaults src_nd dst_nd)"
      using assms s d Inr p by (simp add: reproject_def split: prod.splits)
    have i: "initialized (snd (reproject E a))
               = initialized (snd (execute_warp E a src dst h defaults src_nd dst_nd))"
      using r q by (simp add: initialized_append)
    from ok i eff show ?thesis
      by (auto simp: execute_warp_initialized warp_options_of_dst_nodata)
  qed
qed

text \<open>
  Claim C2. For a call that reaches the nodata step and whose nodata values resolve (the
  error of claim C1 does not arise): if the source value is set and lies outside the
  range of the source element type, the call raises the \<open>ValueError\<close> of line 442; if
  the source value passes and the destination value lies outside the range of the
  destination element type, it raises the \<open>ValueError\<close> of line 462. These are the
  specification's \<open>RangeError\<close>. In both cases the transformer and the options are
  released and the warper is neither initialised nor run.
\<close>

theorem reproject_nodata_range:
  assumes "prepare E a = (Inr (src, dst, h, defaults), ev)"
    and "\<not> (spec_src_nodata a = None \<and> dst_nodata_in_force a \<noteq> None)"
  shows "((\<exists>v. spec_src_nodata a = Some v \<and> \<not> in_dtype_range E v (dtype_of (source a))) \<longrightarrow>
            reproject E a =
              (Inl (ValueError ''src_nodata must be in valid range for source dtype''), ev @ release))
       \<and> ((\<forall>v. spec_src_nodata a = Some v \<longrightarrow> in_dtype_range E v (dtype_of (source a)))
          \<and> \<not> in_dtype_range E (effective_dst_nodata a) (dtype_of (destination a)) \<longrightarrow>
            reproject E a =
              (Inl (ValueError ''dst_nodata must be in valid range for destination dtype''),
               ev @ release))
       \<and> ((\<exists>v. spec_src_nodata a = Some v \<and> \<not> in_dtype_range E v (dtype_of (source a)))
          \<or> \<not> in_dtype_range E (effective_dst_nodata a) (dtype_of (destination a)) \<longrightarrow>
            \<not> warp_executed (snd (reproject E a)) \<and> initialized (snd (reproject E a)) = [])"
proof -
  from prepare_ok[OF assms(1)]
  have s: "src_nodata_resolved src = spec_src_nodata a"
    and d: "dst_nodata_resolved dst = dst_nodata_in_force a"
    and q: "initialized ev = []" "\<not> warp_executed ev"
    by simp_all
  have src_bad: "reproject E a =
      (Inl (ValueError ''src_nodata must be in valid range for source dtype''), ev @ release)"
    if "spec_src_nodata a = Some v" "\<not> in_dtype_range E v (dtype_of (source a))" for v
    using that assms s d by (simp add: reproject_def nodata_policy_def Let_def)
  have dst_bad: "reproject E a =
      (Inl (ValueError ''dst_nodata must be in valid range for destination dtype''), ev @ release)"
    if "\<forall>v. spec_src_nodata a = Some v \<longrightarrow> in_dtype_range E v (dtype_of (source a))"
       "\<not> in_dtype_range E (effective_dst_nodata a) (dtype_of (destination a))"
    using that assms s d
    by (auto simp: reproject_def nodata_policy_def effective_dst_nodata_def Let_def
          split: option.splits)
  have quiet: "\<not> warp_executed (ev @ release) \<and> initialized (ev @ release) = []"
    using q by (simp add: initialized_append warp_executed_append initialized_release
        warp_executed_release)
  have c1: "(\<exists>v. spec_src_nodata a = Some v \<and> \<not> in_dtype_range E v (dtype_of (source a))) \<longrightarrow>
            reproject E a =
              (Inl (ValueError ''src_nodata must be in valid range for source dtype''), ev @ release)"
    using src_bad by blast
  have c2: "(\<forall>v. spec_src_nodata a = Some v \<longrightarrow> in_dtype_range E v (dtype_of (source a)))
          \<and> \<not> in_dtype_range E (effective_dst_nodata a) (dtype_of (destination a)) \<longrightarrow>
            reproject E a =
              (Inl (ValueError ''dst_nodata must be in valid range for destination dtype''),
               ev @ release)"
    using dst_bad by blast
  have c3: "(\<exists>v. spec_src_nodata a = Some v \<and> \<not> in_dtype_range E v (dtype_of (source a)))
          \<or> \<not> in_dtype_range E (effective_dst_nodata a) (dtype_of (destination a)) \<longrightarrow>
            \<not> warp_executed (snd (reproject E a)) \<and> initialized (snd (reproject E a)) = []"
  proof (intro impI)
    assume bad: "(\<exists>v. spec_src_nodata a = Some v \<and> \<not> in_dtype_range E v (dtype_of (source a)))
          \<or> \<not> in_dtype_range E (effective_dst_nodata a) (dtype_of (destination a))"
    have "snd (reproject E a) = ev @ release"
    proof (cases "\<exists>v. spec_src_nodata a = Some v \<and> \<not> in_dtype_range E v (dtype_of (source a))")
      case True
      with c1 show ?thesis by simp
    next
      case False
      with bad c2 show ?thesis by auto
    qed
    with quiet show "\<not> warp_executed (snd (reproject E a)) \<and> initialized (snd (reproject E a)) = []"
      by simp
  qed
  from c1 c2 c3 show ?thesis by (intro conjI)
qed

text \<open>
  Claim C1, as stated, fails. No destination nodata value is given, the source value 5
  is given, and the destination is a band of a dataset whose nodata value is 9. The
  specification's effective destination value is 5; the call succeeds and the warp
  options carry 9. With no source value either, the specification's value is 0; the call
  raises the error of line 424.
\<close>

theorem reproject_nodata_resolution_counterexample:
  "dst_nodata (example_args\<lparr>src_nodata := Some 5,
       destination := Band \<lparr>handle = 7, nodata = Some 9\<rparr> (Index 1) ''uint8'' (4, 4)\<rparr>) = None
   \<and> spec_src_nodata (example_args\<lparr>src_nodata := Some 5,
       destination := Band \<lparr>handle = 7, nodata = Some 9\<rparr> (Index 1) ''uint8'' (4, 4)\<rparr>) = Some 5
   \<and> spec_effective_dst_nodata (example_args\<lparr>src_nodata := Some 5,
       destination := Band \<lparr>handle = 7, nodata = Some 9\<rparr> (Index 1) ''uint8'' (4, 4)\<rparr>) = 5
   \<and> fst (reproject example_warp_engine (example_args\<lparr>src_nodata := Some 5,
       destination := Band \<lparr>handle = 7, nodata = Some 9\<rparr> (Index 1) ''uint8'' (4, 4)\<rparr>)) = Inr ()
   \<and> map padfDstNoDataReal (initialized (snd (reproject example_warp_engine
       (example_args\<lparr>src_nodata := Some 5,
          destination := Band \<lparr>handle = 7, nodata = Some 9\<rparr> (Index 1) ''uint8'' (4, 4)\<rparr>)))) = [[9]]
   \<and> fst (reproject example_warp_engine (example_args\<lparr>
       destination := Band \<lparr>handle = 7, nodata = Some 9\<rparr> (Index 1) ''uint8'' (4, 4)\<rparr>))
     = Inl (ValueError ''src_nodata must be provided because dst_nodata is not None'')"
  by code_simp

text \<open>
  Three calls on unmasked arrays: a destination value given without any source value
  (the call raises), the source value 5 alone (the destination value is 5), and no
  value at all (the destination value is 0).
\<close>

theorem reproject_nodata_resolution_witness:
  "fst (reproject example_warp_engine (example_args\<lparr>dst_nodata := Some 0\<rparr>))
     = Inl (ValueError ''src_nodata must be provided because dst_nodata is not None'')
   \<and> map padfDstNoDataReal
        (initialized (snd (reproject example_warp_engine (example_args\<lparr>src_nodata := Some 5\<rparr>))))
     = [[5]]
   \<and> map padfDstNoDataReal (initialized (snd (reproject example_warp_engine example_args))) = [[0]]"
proof -
  let ?h = "ApproxTransformer (GenImgProjTransformer 1 2 []) (1 / 8) True"
  let ?ev = "[IoAuto 1 True 0, IoAuto 2 True 0, CreateGenImgProjTransformer2 1 2 [],
              CreateApproxTransformer ?h] :: (nat, int) event list"
  let ?dst = "\<lparr>dst_dataset = 2, dst_bidx = [1], dst_rows = 4, dst_cols = 4,
               dst_nodata_resolved = None :: int option\<rparr> :: (nat, int) destination_side"
  have p1: "prepare example_warp_engine (example_args\<lparr>dst_nodata := Some 0\<rparr>)
      = (Inr (\<lparr>src_dataset = 1, src_bidx = [1], src_count = 1, src_nodata_resolved = None\<rparr>,
              ?dst\<lparr>dst_nodata_resolved := Some 0\<rparr>, ?h, []), ?ev)"
    by code_simp
  have p2: "prepare example_warp_engine (example_args\<lparr>src_nodata := Some 5\<rparr>)
      = (Inr (\<lparr>src_dataset = 1, src_bidx = [1], src_count = 1, src_nodata_resolved = Some 5\<rparr>,
              ?dst, ?h, []), ?ev)"
    by code_simp
  have p3: "prepare example_warp_engine example_args
      = (Inr (\<lparr>src_dataset = 1, src_bidx = [1], src_count = 1, src_nodata_resolved = None\<rparr>,
              ?dst, ?h, []), ?ev)"
    by code_simp
  have f1: "spec_src_nodata (example_args\<lparr>dst_nodata := Some 0\<rparr>) = None
            \<and> dst_nodata_in_force (example_args\<lparr>dst_nodata := Some 0\<rparr>) \<noteq> None"
    by (simp add: spec_src_nodata_def dst_nodata_in_force_def example_args_def)
  have f2: "effective_dst_nodata (example_args\<lparr>src_nodata := Some 5\<rparr>) = 5
            \<and> spec_src_nodata (example_args\<lparr>src_nodata := Some 5\<rparr>) = Some 5
            \<and> dst_nodata_in_force (example_args\<lparr>src_nodata := Some 5\<rparr>) = None
            \<and> in_dtype_range example_warp_engine 5 (dtype_of (source (example_args\<lparr>src_nodata := Some 5\<rparr>)))
            \<and> in_dtype_range example_warp_engine 5 (dtype_of (destination (example_args\<lparr>src_nodata := Some 5\<rparr>)))"
    by (simp add: effective_dst_nodata_def spec_src_nodata_def dst_nodata_in_force_def example_args_def
        example_warp_engine_def in_dtype_range_int_def dtype_range_def)
  have f3: "effective_dst_nodata example_args = 0
            \<and> spec_src_nodata example_args = None
            \<and> dst_nodata_in_force example_args = None
            \<and> in_dtype_range example_warp_engine 0 (dtype_of (destination example_args))"
    by (simp add: effective_dst_nodata_def spec_src_nodata_def dst_nodata_in_force_def example_args_def
        example_warp_engine_def in_dtype_range_int_def dtype_range_def)
  have c1: "fst (reproject example_warp_engine (example_args\<lparr>dst_nodata := Some 0\<rparr>))
     = Inl (ValueError ''src_nodata must be provided because dst_nodata is not None'')"
    using reproject_nodata_resolution[OF p1] f1 by simp
  have c2: "map padfDstNoDataReal
        (initialized (snd (reproject example_warp_engine (example_args\<lparr>src_nodata := Some 5\<rparr>))))
     = [[5]]"
  proof -
    from reproject_nodata_resolution[OF p2] f2
    have all: "\<forall>opts \<in> set (initialized (snd (reproject example_warp_engine (example_args\<lparr>src_nodata := Some 5\<rparr>)))).
             padfDstNoDataReal opts = [5]"
      and ne: "initialized (snd (reproject example_warp_engine (example_args\<lparr>src_nodata := Some 5\<rparr>))) \<noteq> []"
      by simp_all
    have len: "length (initialized (snd (reproject example_warp_engine (example_args\<lparr>src_nodata := Some 5\<rparr>)))) = 1"
      by code_simp
    from all ne len show ?thesis
      by (cases "initialized (snd (reproject example_warp_engine (example_args\<lparr>src_nodata := Some 5\<rparr>)))") auto
  qed
  have c3: "map padfDstNoDataReal (initialized (snd (reproject example_warp_engine example_args))) = [[0]]"
  proof -
    from reproject_nodata_resolution[OF p3] f3
    have all: "\<forall>opts \<in> set (initialized (snd (reproject example_warp_engine example_args))).
             padfDstNoDataReal opts = [0]"
      and ne: "initialized (snd (reproject example_warp_engine example_args)) \<noteq> []"
      by simp_all
    have len: "length (initialized (snd (reproject example_warp_engine example_args))) = 1"
      by code_simp
    from all ne len show ?thesis
      by (cases "initialized (snd (reproject example_warp_engine example_args))") auto
  qed
  from c1 c2 c3 show ?thesis by simp
qed

text \<open>
  The source value 5 with an unsigned 8-bit destination and the destination value -1:
  the call raises the error of line 462 and runs no warp. The source value 300 with an
  unsigned 8-bit source raises the error of line 442.
\<close>

theorem reproject_nodata_range_witness:
  "reproject example_warp_engine (example_args\<lparr>src_nodata := Some 5, dst_nodata := Some (- 1)\<rparr>)
     = (Inl (ValueError ''dst_nodata must be in valid range for destination dtype''),
        [IoAuto 1 True 0, IoAuto 2 True 0, CreateGenImgProjTransformer2 1 2 [],
         CreateApproxTransformer (ApproxTransformer (GenImgProjTransformer 1 2 []) (1 / 8) True)]
        @ release)
   \<and> \<not> warp_executed (snd (reproject example_warp_engine
          (example_args\<lparr>src_nodata := Some 5, dst_nodata := Some (- 1)\<rparr>)))
   \<and> fst (reproject example_warp_engine (example_args\<lparr>src_nodata := Some 300\<rparr>))
     = Inl (ValueError ''src_nodata must be in valid range for source dtype'')"
proof -
  let ?h = "ApproxTransformer (GenImgProjTransformer 1 2 []) (1 / 8) True"
  let ?ev = "[IoAuto 1 True 0, IoAuto 2 True 0, CreateGenImgProjTransformer2 1 2 [],
              CreateApproxTransformer ?h] :: (nat, int) event list"
  let ?a = "example_args\<lparr>src_nodata := Some 5, dst_nodata := Some (- 1)\<rparr>"
  let ?b = "example_args\<lparr>src_nodata := Some 300\<rparr>"
  have p1: "prepare example_warp_engine ?a
      = (Inr (\<lparr>src_dataset = 1, src_bidx = [1], src_count = 1, src_nodata_resolved = Some 5\<rparr>,
              \<lparr>dst_dataset = 2, dst_bidx = [1], dst_rows = 4, dst_cols = 4,
               dst_nodata_resolved = Some (- 1)\<rparr>, ?h, []), ?ev)"
    by code_simp
  have p2: "prepare example_warp_engine ?b
      = (Inr (\<lparr>src_dataset = 1, src_bidx = [1], src_count = 1, src_nodata_resolved = Some 300\<rparr>,
              \<lparr>dst_dataset = 2, dst_bidx = [1], dst_rows = 4, dst_cols = 4,
               dst_nodata_resolved = None\<rparr>, ?h, []), ?ev)"
    by code_simp
  have r1: "\<not> (spec_src_nodata ?a = None \<and> dst_nodata_in_force ?a \<noteq> None)"
    by (simp add: spec_src_nodata_def example_args_def)
  have r2: "\<not> (spec_src_nodata ?b = None \<and> dst_nodata_in_force ?b \<noteq> None)"
    by (simp add: spec_src_nodata_def example_args_def)
  have f1: "(\<forall>v. spec_src_nodata ?a = Some v \<longrightarrow> in_dtype_range example_warp_engine v (dtype_of (source ?a)))
            \<and> \<not> in_dtype_range example_warp_engine (effective_dst_nodata ?a) (dtype_of (destination ?a))"
    by (simp add: effective_dst_nodata_def spec_src_nodata_def dst_nodata_in_force_def example_args_def
        example_warp_engine_def in_dtype_range_int_def dtype_range_def)
  have f2: "\<exists>v. spec_src_nodata ?b = Some v \<and> \<not> in_dtype_range example_warp_engine v (dtype_of (source ?b))"
    by (simp add: spec_src_nodata_def example_args_def
        example_warp_engine_def in_dtype_range_int_def dtype_range_def)
  from reproject_nodata_range[OF p1 r1] f1
  have A: "reproject example_warp_engine ?a
             = (Inl (ValueError ''dst_nodata must be in valid range for destination dtype''),
                ?ev @ release)"
    and B: "\<not> warp_executed (snd (reproject example_warp_engine ?a))"
    by blast+
  from reproject_nodata_range[OF p2 r2] f2
  have "reproject example_warp_engine ?b
             = (Inl (ValueError ''src_nodata must be in valid range for source dtype''),
                ?ev @ release)"
    by blast
  then have C: "fst (reproject example_warp_engine ?b)
             = Inl (ValueError ''src_nodata must be in valid range for source dtype'')"
    by (simp only: fst_conv)
  from A B C show ?thesis by (intro conjI)
qed

text \<open>
  The status that \<open>io_auto\<close> returns is never read: whatever status the transfers
  report, \<open>_reproject\<close> returns or raises the same.
\<close>

lemma resolve_source_io_auto:
  "fst (resolve_source (E\<lparr>io_auto := f\<rparr>) a) = fst (resolve_source E a)"
  by (simp add: resolve_source_def Let_def split: raster.splits option.splits sum.splits)

lemma resolve_destination_io_auto:
  "fst (resolve_destination (E\<lparr>io_auto := f\<rparr>) a src) = fst (resolve_destination E a src)"
  by (auto simp: resolve_destination_def Let_def split: raster.splits option.splits sum.splits)

lemma create_transformer_io_auto:
  "create_transformer (E\<lparr>io_auto := f\<rparr>) a s d = create_transformer E a s d"
  by (simp add: create_transformer_def Let_def split: option.splits)

lemma prepare_io_auto:
  "fst (prepare (E\<lparr>io_auto := f\<rparr>) a) = fst (prepare E a)"
proof -
  obtain r1 e1 where a1: "resolve_source E a = (r1, e1)" by (cases "resolve_source E a")
  obtain r1' e1' where b1: "resolve_source (E\<lparr>io_auto := f\<rparr>) a = (r1', e1')"
    by (cases "resolve_source (E\<lparr>io_auto := f\<rparr>) a")
  from resolve_source_io_auto[where E = E and f = f and a = a] a1 b1 have r1: "r1' = r1" by simp
  show ?thesis
  proof (cases r1)
    case (Inl err)
    with a1 b1 r1 show ?thesis by (simp add: prepare_def)
  next
    case (Inr src)
    obtain r2 e2 where a2: "resolve_destination E a src = (r2, e2)"
      by (cases "resolve_destination E a src")
    obtain r2' e2' where b2: "resolve_destination (E\<lparr>io_auto := f\<rparr>) a src = (r2', e2')"
      by (cases "resolve_destination (E\<lparr>io_auto := f\<rparr>) a src")
    from resolve_destination_io_auto[where E = E and f = f and a = a and src = src] a2 b2 have r2: "r2' = r2" by simp
    show ?thesis
      using a1 b1 r1 Inr a2 b2 r2
      by (cases r2) (simp_all add: prepare_def create_transformer_io_auto split: prod.splits sum.splits)
  qed
qed

lemma nodata_policy_io_auto:
  "nodata_policy (E\<lparr>io_auto := f\<rparr>) a s d = nodata_policy E a s d"
  by (simp add: nodata_policy_def Let_def split: option.splits)

lemma execute_warp_io_auto:
  "fst (execute_warp (E\<lparr>io_auto := f\<rparr>) a src dst h defaults s d)
     = fst (execute_warp E a src dst h defaults s d)"
  by (simp add: execute_warp_def Let_def split: option.splits)

lemma reproject_never_reads_transfer_status:
  "fst (reproject (E\<lparr>io_auto := f\<rparr>) a) = fst (reproject E a)"
proof -
  obtain p e where a1: "prepare E a = (p, e)" by (cases "prepare E a")
  obtain p' e' where b1: "prepare (E\<lparr>io_auto := f\<rparr>) a = (p', e')"
    by (cases "prepare (E\<lparr>io_auto := f\<rparr>) a")
  from prepare_io_auto[where E = E and f = f and a = a] a1 b1 have p: "p' = p" by simp
  show ?thesis
  proof (cases p)
    case (Inl err)
    with a1 b1 p show ?thesis by (simp add: reproject_def)
  next
    case (Inr ctx)
    obtain src dst h defaults where ctx: "ctx = (src, dst, h, defaults)" by (cases ctx)
    show ?thesis
    proof (cases "nodata_policy E a (src_nodata_resolved src) (dst_nodata_resolved dst)")
      case (Inl err)
      with a1 b1 p Inr ctx show ?thesis
        by (simp add: reproject_def nodata_policy_io_auto)
    next
      case nd: (Inr v)
      obtain s d where v: "v = (s, d)" by (cases v)
      obtain r1 e1 where x1: "execute_warp E a src dst h defaults s d = (r1, e1)"
        by (cases "execute_warp E a src dst h defaults s d")
      obtain r2 e2 where x2: "execute_warp (E\<lparr>io_auto := f\<rparr>) a src dst h defaults s d = (r2, e2)"
        by (cases "execute_warp (E\<lparr>io_auto := f\<rparr>) a src dst h defaults s d")
      from execute_warp_io_auto[where E = E and f = f and a = a and src = src and dst = dst
             and h = h and defaults = defaults and s = s and d = d] x1 x2
      have "r2 = r1" by simp
      with a1 b1 p Inr ctx nd v x1 x2 show ?thesis
        by (simp add: reproject_def nodata_policy_io_auto)
    qed
  qed
qed

text \<open>
  A call of \<open>_reproject\<close> in which the transfer that writes the source array into the
  temporary dataset reports the status 3. The status is assigned to \<open>retval\<close> (line 273,
  under the note that errors are still to be handled) and not read again: the call goes
  on to run the warp and returns normally.
\<close>

lemma reproject_ignores_transfer_status:
  "io_auto (example_warp_engine\<lparr>io_auto := (\<lambda>sd ds write. if sd = SourceSide then 3 else 0)\<rparr>)
      SourceSide 1 True = 3
   \<and> fst (reproject (example_warp_engine\<lparr>io_auto := (\<lambda>sd ds write. if sd = SourceSide then 3 else 0)\<rparr>)
           example_args) = Inr ()
   \<and> warp_executed
       (snd (reproject (example_warp_engine\<lparr>io_auto := (\<lambda>sd ds write. if sd = SourceSide then 3 else 0)\<rparr>)
           example_args))
   \<and> take 1 (snd (reproject (example_warp_engine\<lparr>io_auto := (\<lambda>sd ds write. if sd = SourceSide then 3 else 0)\<rparr>)
           example_args)) = [IoAuto 1 True 3]"
  by code_simp

text \<open>
  The options of the exact transformer have no names but the keyword arguments' own, in
  upper case: unless a keyword argument supplies it, \<open>GCPS_OK\<close> is not among them.
\<close>

lemma CSLSetNameValue_names:
  "fst ` set (CSLSetNameValue opts name val) \<subseteq> insert name (fst ` set opts)"
  by (induction opts name val rule: CSLSetNameValue.induct) auto

lemma foldl_CSLSetNameValue_names:
  "fst ` set (foldl (\<lambda>opts (key, val). CSLSetNameValue opts (upper key) (upper val)) opts0 kw)
     \<subseteq> fst ` set opts0 \<union> upper ` fst ` set kw"
proof (induction kw arbitrary: opts0)
  case Nil
  then show ?case by simp
next
  case (Cons kv kw)
  obtain k v where kv: "kv = (k, v)" by (cases kv)
  have "fst ` set (foldl (\<lambda>opts (key, val). CSLSetNameValue opts (upper key) (upper val))
                     (CSLSetNameValue opts0 (upper k) (upper v)) kw)
        \<subseteq> fst ` set (CSLSetNameValue opts0 (upper k) (upper v)) \<union> upper ` fst ` set kw"
    by (rule Cons.IH)
  also have "\<dots> \<subseteq> insert (upper k) (fst ` set opts0) \<union> upper ` fst ` set kw"
    using CSLSetNameValue_names[of opts0 "upper k" "upper v"] by blast
  finally show ?case by (auto simp: kv)
qed

lemma transformer_options_lack_gcps_ok:
  assumes "''GCPS_OK'' \<notin> upper ` fst ` set (kwargs a)"
    and "opts \<in> set (transformer_options (snd (create_transformer E a src dst)))"
  shows "''GCPS_OK'' \<notin> fst ` set opts"
proof -
  from assms(2)
  have "opts = foldl (\<lambda>opts (key, val). CSLSetNameValue opts (upper key) (upper val)) [] (kwargs a)"
    by (auto simp: create_transformer_def transformer_options_def release_def Let_def
          split: option.splits)
  with foldl_CSLSetNameValue_names[of "[]" "kwargs a"] assms(1) show ?thesis by auto
qed

text \<open>
  Claim C7 does not hold of the code in one part. The chain is the exact transformer
  between the two handles inside an approximate transformer of tolerance 0.125 (1/8)
  that owns it, and the exact transformer's options hold every keyword argument in
  upper case; but they do not hold \<open>GCPS_OK=TRUE\<close>, because the list returned by the
  call of line 365 is dropped. With the one keyword argument \<open>max_gcp_order=2\<close> the
  options are \<open>MAX_GCP_ORDER=2\<close> alone; with none they are empty.
\<close>

theorem reproject_transformer_lacks_gcps_ok:
  "transformer_options (snd (reproject example_warp_engine
       (example_args\<lparr>kwargs := [(''max_gcp_order'', ''2'')]\<rparr>)))
     = [[(''MAX_GCP_ORDER'', ''2'')]]
   \<and> (''GCPS_OK'', ''TRUE'') \<notin> set (concat (transformer_options (snd (reproject example_warp_engine
       (example_args\<lparr>kwargs := [(''max_gcp_order'', ''2'')]\<rparr>)))))
   \<and> transformer_options (snd (reproject example_warp_engine example_args)) = [[]]
   \<and> map pTransformerArg (initialized (snd (reproject example_warp_engine
       (example_args\<lparr>kwargs := [(''max_gcp_order'', ''2'')]\<rparr>))))
     = [ApproxTransformer (GenImgProjTransformer 1 2 [(''MAX_GCP_ORDER'', ''2'')]) (1 / 8) True]"
  by code_simp

end
